theory Spec2Isabelle
  imports Complex_Main
begin

section \<open>Real-time CVE scoring and ingestion pipeline\<close>

text \<open>
  A shallow embedding of \<^verbatim>\<open>backend/cve_realtime_processor.py\<close> and of the batch endpoint of
  \<^verbatim>\<open>backend/app.py\<close>.

  Modelling decisions:
  \<^item> A Python float is an IEEE binary64 number, modelled as the real it denotes. A float
    literal and the result of a float operation are rounded by \<open>binary64\<close>: \<^verbatim>\<open>0.70\<close> is
    \<open>binary64 0.70\<close> and \<^verbatim>\<open>1.0 - p\<close> is \<open>binary64 (1 - p)\<close>.
  \<^item> The three unpickled scikit-learn objects are opaque: each method the code calls is a
    function from its argument to either the exception it raised or its value, and the
    code lets that exception propagate unchanged. \<^verbatim>\<open>transform([description])\<close>, \<^verbatim>\<open>predict(X)[0]\<close>,
    \<^verbatim>\<open>predict_proba(X)[0]\<close> and \<^verbatim>\<open>decision_function(X)[0]\<close> work on a batch of one, so
    the model gives the single row.
  \<^item> Exceptions are values of type \<open>exn\<close>; a function that can raise returns \<open>exn + 'a\<close>.
  \<^item> Every \<^verbatim>\<open>logger\<close> call is a structured event appended to the log the function returns,
    carrying the values the message interpolates.
  \<^item> The clock, the environment variable and the HTTP exchange are inputs.
\<close>

subsection \<open>Exceptions and log events\<close>

datatype exn =
    ValueError string
  | KeyError string
  | IndexError
  | OverflowError
  | FileNotFoundError "string list"
  | RequestException string
  | HTTPError nat
  | OtherException string
  | RequestValidationError
  | HTTPException nat exn

text \<open>
  \<^verbatim>\<open>requests.HTTPError\<close> is a subclass of \<^verbatim>\<open>requests.RequestException\<close>; the handler
  \<^verbatim>\<open>except requests.RequestException\<close> catches both.
\<close>

fun is_RequestException :: "exn \<Rightarrow> bool" where
  "is_RequestException (RequestException m) = True"
| "is_RequestException (HTTPError s) = True"
| "is_RequestException e = False"

datatype log_event =
    InfoModelsLoaded
  | ErrorModelFileNotFound string
  | ErrorLoadingModels string
  | WarnNoApiKey
  | InfoFetching int int
  | WarnNoEnglishDescription string
  | InfoFetched nat
  | ErrorFetchingFromNvd exn
  | InfoStartingProcessing
  | ErrorFailedToFetch exn
  | WarnNoCvesFetched
  | InfoProcessing nat nat string
  | InfoRisk string real bool
  | ErrorProcessing string exn
  | InfoCompleted nat nat
  | InfoStartingApi
  | ErrorMissingModelFiles "string list"
  | InfoModelFilesPresent
  | InfoApiReady
  | InfoDocsReady
  | WarnApiKeyNotSet
  | ErrorLatestCves exn

subsection \<open>Pretrained artifacts\<close>

record 'x classifier =
  clf_predict :: "'x \<Rightarrow> exn + int"
  clf_predict_proba :: "'x \<Rightarrow> exn + real list"

record 'x tfidf =
  vec_transform :: "string \<Rightarrow> exn + 'x"

record 'x isolation_forest =
  iso_predict :: "'x \<Rightarrow> exn + int"
  iso_decision_function :: "'x \<Rightarrow> exn + real"

text \<open>The module globals \<^verbatim>\<open>clf\<close>, \<^verbatim>\<open>vectorizer\<close>, \<^verbatim>\<open>anomaly_clf\<close>; \<open>None\<close> is Python's \<^verbatim>\<open>None\<close>.\<close>

record 'x models =
  clf :: "'x classifier option"
  vectorizer :: "'x tfidf option"
  anomaly_clf :: "'x isolation_forest option"

datatype load_failure = NotFound string | LoadFailed string

text \<open>
  Module import, lines 46-58: the three \<^verbatim>\<open>joblib.load\<close> calls run in order inside one
  \<^verbatim>\<open>try\<close>; either handler logs the error and sets all three globals to \<^verbatim>\<open>None\<close>. The
  import itself completes in every case.
\<close>

definition load_failed :: "load_failure \<Rightarrow> 'x models \<times> log_event list" where
  "load_failed e =
     (\<lparr>clf = None, vectorizer = None, anomaly_clf = None\<rparr>,
      [case e of NotFound m \<Rightarrow> ErrorModelFileNotFound m | LoadFailed m \<Rightarrow> ErrorLoadingModels m])"

definition load_models ::
  "load_failure + 'x classifier \<Rightarrow> load_failure + 'x tfidf \<Rightarrow>
   load_failure + 'x isolation_forest \<Rightarrow> 'x models \<times> log_event list" where
  "load_models l1 l2 l3 =
     (case l1 of Inl e \<Rightarrow> load_failed e
      | Inr c \<Rightarrow>
        (case l2 of Inl e \<Rightarrow> load_failed e
         | Inr v \<Rightarrow>
           (case l3 of Inl e \<Rightarrow> load_failed e
            | Inr a \<Rightarrow>
              (\<lparr>clf = Some c, vectorizer = Some v, anomaly_clf = Some a\<rparr>,
               [InfoModelsLoaded]))))"

subsection \<open>Binary64 arithmetic\<close>

text \<open>
  Rounding to the nearest binary64 number, ties to the even significand, as Python does for
  a float literal and for the result of a float operation. \<open>float_exponent x\<close> is the
  exponent \<open>e\<close> with \<open>2 powi e \<le> \<bar>x\<bar> < 2 powi (e + 1)\<close>, found by halving or doubling and
  not below \<open>-1022\<close> (subnormal numbers) in at most 2100 steps, which covers every
  binary64 exponent; the significand has 53 bits, so neighbouring numbers are
  \<open>2 powi (e - 52)\<close> apart. Infinities and NaN are outside the model.
\<close>

definition round_half_even :: "real \<Rightarrow> int" where
  "round_half_even y =
     (let f = \<lfloor>y\<rfloor>; r = y - of_int f in
      if r < 1 / 2 then f else if 1 / 2 < r then f + 1 else if even f then f else f + 1)"

primrec normalise :: "nat \<Rightarrow> real \<Rightarrow> int \<Rightarrow> int" where
  "normalise 0 x e = e"
| "normalise (Suc n) x e =
     (if 2 \<le> x then normalise n (x / 2) (e + 1)
      else if x < 1 \<and> - 1022 < e then normalise n (x * 2) (e - 1)
      else e)"

definition float_exponent :: "real \<Rightarrow> int" where
  "float_exponent x = normalise 2100 \<bar>x\<bar> 0"

definition binary64 :: "real \<Rightarrow> real" where
  "binary64 x =
     (let ulp = 2 powi (float_exponent x - 52) in
      of_int (round_half_even (x / ulp)) * ulp)"

subsection \<open>Risk scorer\<close>

record risk_result =
  risk :: string
  confidence :: real
  prediction_class :: int

definition predict_risk :: "'x models \<Rightarrow> string \<Rightarrow> exn + risk_result" where
  "predict_risk g description =
     (case clf g of
        None \<Rightarrow> Inl (ValueError ''Models not loaded. Cannot perform prediction.'')
      | Some c \<Rightarrow>
        (case vectorizer g of
           None \<Rightarrow> Inl (ValueError ''Models not loaded. Cannot perform prediction.'')
         | Some v \<Rightarrow>
           (case vec_transform v description of
              Inl e \<Rightarrow> Inl e
            | Inr X_transformed \<Rightarrow>
              (case clf_predict c X_transformed of
                 Inl e \<Rightarrow> Inl e
               | Inr pred_class \<Rightarrow>
                 (case clf_predict_proba c X_transformed of
                    Inl e \<Rightarrow> Inl e
                  | Inr probabilities \<Rightarrow>
                    if length probabilities \<le> 1 then Inl IndexError
                    else
                      (let high_risk_probability = probabilities ! 1 in
                       if high_risk_probability \<ge> binary64 0.70 then
                         Inr \<lparr>risk = ''HIGH'', confidence = high_risk_probability,
                              prediction_class = pred_class\<rparr>
                       else if high_risk_probability \<ge> binary64 0.40 then
                         Inr \<lparr>risk = ''MEDIUM'', confidence = high_risk_probability,
                              prediction_class = pred_class\<rparr>
                       else
                         Inr \<lparr>risk = ''LOW'',
                              confidence = binary64 (1.0 - high_risk_probability),
                              prediction_class = pred_class\<rparr>))))))"

subsection \<open>Anomaly detector\<close>

record anomaly_result =
  anomalous :: bool
  anomaly_score :: real
  threshold_info :: string

definition detect_anomaly :: "'x models \<Rightarrow> string \<Rightarrow> exn + anomaly_result" where
  "detect_anomaly g description =
     (case anomaly_clf g of
        None \<Rightarrow> Inl (ValueError ''Anomaly model or vectorizer not loaded.'')
      | Some a \<Rightarrow>
        (case vectorizer g of
           None \<Rightarrow> Inl (ValueError ''Anomaly model or vectorizer not loaded.'')
         | Some v \<Rightarrow>
           (case vec_transform v description of
              Inl e \<Rightarrow> Inl e
            | Inr X_transformed \<Rightarrow>
              (case iso_predict a X_transformed of
                 Inl e \<Rightarrow> Inl e
               | Inr anomaly_prediction \<Rightarrow>
                 (case iso_decision_function a X_transformed of
                    Inl e \<Rightarrow> Inl e
                  | Inr score \<Rightarrow>
                    (let is_anomalous = (anomaly_prediction = - 1) in
                     Inr \<lparr>anomalous = is_anomalous,
                          anomaly_score = score,
                          threshold_info =
                            (if is_anomalous then ''outside historical CVE patterns''
                             else ''within normal patterns'')\<rparr>))))))"

subsection \<open>Feed client\<close>

text \<open>
  The JSON document of the feed, at the shape the code reads: objects with string fields
  and lists of objects. A field read with \<^verbatim>\<open>.get\<close> may be absent (\<open>None\<close>);
  \<^verbatim>\<open>d["value"]\<close> raises \<^verbatim>\<open>KeyError\<close> when absent. Documents whose fields hold values
  of another JSON type are outside the model.
\<close>

record lang_string =
  lang :: "string option"
  text_value :: "string option"

record cve_object =
  cve_obj_id :: "string option"
  descriptions :: "lang_string list option"

record feed_item =
  cve :: "cve_object option"

record feed_document =
  vulnerabilities :: "feed_item list option"

text \<open>
  The one HTTP GET: the query parameters and the optional \<^verbatim>\<open>apiKey\<close> header (the URL and
  the 30 s timeout are constants). Dates are seconds since the epoch, which is what
  \<^verbatim>\<open>strftime("%Y-%m-%dT%H:%M:%S.000")\<close> keeps of a \<^verbatim>\<open>datetime\<close>.
\<close>

record request =
  pubStartDate :: int
  pubEndDate :: int
  resultsPerPage :: int
  apiKey :: "string option"

text \<open>
  \<^verbatim>\<open>requests.get\<close> either raises a \<^verbatim>\<open>RequestException\<close> (connection error, timeout) or
  returns a response with a status code and a body that \<^verbatim>\<open>response.json()\<close> parses or
  rejects with an exception.
\<close>

datatype http_result =
    RequestFailed string
  | Response nat "exn + feed_document"

record cve_record =
  cve_id :: string
  description :: string

text \<open>Truthiness of an optional string: \<^verbatim>\<open>None\<close> and the empty string are falsy.\<close>

fun truthy :: "string option \<Rightarrow> bool" where
  "truthy None = False"
| "truthy (Some s) = (s \<noteq> [])"

text \<open>
  \<^verbatim>\<open>timedelta(days=d)\<close> raises \<^verbatim>\<open>OverflowError\<close> beyond 999999999 days, and
  \<^verbatim>\<open>datetime - timedelta\<close> raises it outside the years 1 to 9999 (in seconds since the
  epoch, from -62135596800 to 253402300799).
\<close>

definition timedelta_days :: "int \<Rightarrow> exn + int" where
  "timedelta_days d = (if \<bar>d\<bar> > 999999999 then Inl OverflowError else Inr (d * 86400))"

definition datetime_sub :: "int \<Rightarrow> int \<Rightarrow> exn + int" where
  "datetime_sub t delta =
     (let r = t - delta in
      if r < - 62135596800 \<or> r > 253402300799 then Inl OverflowError else Inr r)"

text \<open>Lines 194-198 and 211-214: the key that goes into the header, and the warning.\<close>

definition resolve_api_key :: "string option \<Rightarrow> string option \<Rightarrow> string option \<times> log_event list" where
  "resolve_api_key env api_key =
     (case api_key of
        None \<Rightarrow> (env, if \<not> truthy env then [WarnNoApiKey] else [])
      | Some k \<Rightarrow> (Some k, []))"

text \<open>Lines 200-214: the request, or the \<^verbatim>\<open>OverflowError\<close> of the date arithmetic.\<close>

definition nvd_request :: "string option \<Rightarrow> int \<Rightarrow> int \<Rightarrow> int \<Rightarrow> string option \<Rightarrow> exn + request" where
  "nvd_request env now days_back max_results api_key =
     (let end_date = now in
      case timedelta_days days_back of
        Inl e \<Rightarrow> Inl e
      | Inr delta \<Rightarrow>
        (case datetime_sub end_date delta of
           Inl e \<Rightarrow> Inl e
         | Inr start_date \<Rightarrow>
           (let k = fst (resolve_api_key env api_key) in
            Inr \<lparr>pubStartDate = start_date, pubEndDate = end_date,
                 resultsPerPage = max_results,
                 apiKey = (if truthy k then k else None)\<rparr>)))"

text \<open>
  Lines 238-241: \<^verbatim>\<open>next((d["value"] for d in descriptions if d.get("lang") == "en"), None)\<close>
  takes the first entry tagged \<^verbatim>\<open>en\<close> and reads its value.
\<close>

fun first_english :: "lang_string list \<Rightarrow> exn + string option" where
  "first_english [] = Inr None"
| "first_english (d # ds) =
     (if lang d = Some ''en'' then
        (case text_value d of None \<Rightarrow> Inl (KeyError ''value'') | Some t \<Rightarrow> Inr (Some t))
      else first_english ds)"

definition item_cve_obj :: "feed_item \<Rightarrow> cve_object" where
  "item_cve_obj item =
     (case cve item of None \<Rightarrow> \<lparr>cve_obj_id = None, descriptions = None\<rparr> | Some c \<Rightarrow> c)"

definition item_id :: "feed_item \<Rightarrow> string" where
  "item_id item = (case cve_obj_id (item_cve_obj item) of None \<Rightarrow> ''Unknown'' | Some i \<Rightarrow> i)"

definition item_desc_text :: "feed_item \<Rightarrow> exn + string option" where
  "item_desc_text item =
     first_english (case descriptions (item_cve_obj item) of None \<Rightarrow> [] | Some ds \<Rightarrow> ds)"

text \<open>Line 229: \<^verbatim>\<open>data.get("vulnerabilities", [])\<close>.\<close>

definition cve_items :: "feed_document \<Rightarrow> feed_item list" where
  "cve_items data = (case vulnerabilities data of None \<Rightarrow> [] | Some xs \<Rightarrow> xs)"

text \<open>The loop of lines 232-249 over the items of the document.\<close>

fun extract_cves :: "feed_item list \<Rightarrow> (exn + cve_record list) \<times> log_event list" where
  "extract_cves [] = (Inr [], [])"
| "extract_cves (item # items) =
     (case item_desc_text item of
        Inl e \<Rightarrow> (Inl e, [])
      | Inr desc_text \<Rightarrow>
        (case extract_cves items of
           (rest, lg) \<Rightarrow>
             (case desc_text of
                None \<Rightarrow> (rest, WarnNoEnglishDescription (item_id item) # lg)
              | Some t \<Rightarrow>
                  if t \<noteq> [] then
                    (case rest of
                       Inl e \<Rightarrow> (Inl e, lg)
                     | Inr extracted \<Rightarrow>
                         (Inr (\<lparr>cve_id = item_id item, description = t\<rparr> # extracted), lg))
                  else (rest, WarnNoEnglishDescription (item_id item) # lg))))"

text \<open>
  \<^verbatim>\<open>except requests.RequestException\<close>, lines 254-256: logs and re-raises; any other
  exception leaves the function without this log line.
\<close>

definition except_RequestException :: "exn \<Rightarrow> log_event list" where
  "except_RequestException e = (if is_RequestException e then [ErrorFetchingFromNvd e] else [])"

text \<open>
  Lines 225-252 on the result of \<^verbatim>\<open>requests.get\<close>. \<^verbatim>\<open>raise_for_status\<close> raises
  \<^verbatim>\<open>HTTPError\<close> for the status codes 400 to 599.
\<close>

definition handle_response :: "http_result \<Rightarrow> (exn + cve_record list) \<times> log_event list" where
  "handle_response r =
     (case r of
        RequestFailed m \<Rightarrow> (Inl (RequestException m), [ErrorFetchingFromNvd (RequestException m)])
      | Response status body \<Rightarrow>
          if 400 \<le> status \<and> status < 600 then
            (Inl (HTTPError status), [ErrorFetchingFromNvd (HTTPError status)])
          else
            (case body of
               Inl e \<Rightarrow> (Inl e, except_RequestException e)
             | Inr data \<Rightarrow>
               (case extract_cves (cve_items data) of
                  (Inl e, lg) \<Rightarrow> (Inl e, lg @ except_RequestException e)
                | (Inr extracted_cves, lg) \<Rightarrow>
                    (Inr extracted_cves, lg @ [InfoFetched (length extracted_cves)]))))"

definition fetch_cves_from_nvd ::
  "string option \<Rightarrow> int \<Rightarrow> (request \<Rightarrow> http_result) \<Rightarrow> int \<Rightarrow> int \<Rightarrow> string option \<Rightarrow>
   (exn + cve_record list) \<times> log_event list" where
  "fetch_cves_from_nvd env now http_get days_back max_results api_key =
     (let log0 = snd (resolve_api_key env api_key) in
      case nvd_request env now days_back max_results api_key of
        Inl e \<Rightarrow> (Inl e, log0)
      | Inr params \<Rightarrow>
        (case handle_response (http_get params) of
           (r, lg) \<Rightarrow>
             (r, log0 @ [InfoFetching (pubStartDate params) (pubEndDate params)] @ lg)))"

subsection \<open>Pipeline orchestrator\<close>

record scored_record =
  out_cve_id :: string
  out_risk :: string
  out_confidence :: real
  out_anomalous :: bool

text \<open>The body of the \<^verbatim>\<open>try\<close> of lines 318-334 for one record.\<close>

definition score_cve :: "'x models \<Rightarrow> cve_record \<Rightarrow> exn + scored_record" where
  "score_cve g c =
     (case predict_risk g (description c) of
        Inl e \<Rightarrow> Inl e
      | Inr risk_res \<Rightarrow>
        (case detect_anomaly g (description c) of
           Inl e \<Rightarrow> Inl e
         | Inr anomaly_res \<Rightarrow>
             Inr \<lparr>out_cve_id = cve_id c, out_risk = risk risk_res,
                  out_confidence = confidence risk_res,
                  out_anomalous = anomalous anomaly_res\<rparr>))"

text \<open>
  The loop of lines 312-345; \<open>n_cves\<close> is \<^verbatim>\<open>len(cves)\<close> and \<open>idx\<close> the counter of
  \<^verbatim>\<open>enumerate(cves, 1)\<close>. \<^verbatim>\<open>except Exception\<close> logs and continues.
\<close>

fun score_loop :: "'x models \<Rightarrow> nat \<Rightarrow> nat \<Rightarrow> cve_record list \<Rightarrow> scored_record list \<times> log_event list" where
  "score_loop g n_cves idx [] = ([], [])"
| "score_loop g n_cves idx (c # cs) =
     (case score_loop g n_cves (idx + 1) cs of
        (results, lg) \<Rightarrow>
          (case score_cve g c of
             Inl e \<Rightarrow>
               (results,
                InfoProcessing idx n_cves (cve_id c) # ErrorProcessing (cve_id c) e # lg)
           | Inr output \<Rightarrow>
               (output # results,
                InfoProcessing idx n_cves (cve_id c)
                  # InfoRisk (out_risk output) (out_confidence output) (out_anomalous output)
                  # lg)))"

definition process_new_cves ::
  "'x models \<Rightarrow> string option \<Rightarrow> int \<Rightarrow> (request \<Rightarrow> http_result) \<Rightarrow> int \<Rightarrow> int \<Rightarrow>
   string option \<Rightarrow> (exn + scored_record list) \<times> log_event list" where
  "process_new_cves g env now http_get days_back max_results api_key =
     (case fetch_cves_from_nvd env now http_get days_back max_results api_key of
        (Inl e, lg) \<Rightarrow> (Inl e, [InfoStartingProcessing] @ lg @ [ErrorFailedToFetch e])
      | (Inr cves, lg) \<Rightarrow>
          if cves = [] then (Inr [], [InfoStartingProcessing] @ lg @ [WarnNoCvesFetched])
          else
            (case score_loop g (length cves) 1 cves of
               (results, lg2) \<Rightarrow>
                 (Inr results,
                  [InfoStartingProcessing] @ lg @ lg2
                    @ [InfoCompleted (length results) (length cves)])))"

subsection \<open>HTTP layer\<close>

text \<open>
  \<^verbatim>\<open>app.py\<close>, lines 125-148: the startup hook checks that the three files exist and raises
  \<^verbatim>\<open>FileNotFoundError\<close> otherwise.
\<close>

definition required_files :: "string list" where
  "required_files = [''rf_model.pkl'', ''tfidf_vectorizer.pkl'', ''anomaly_model.pkl'']"

definition startup_event :: "(string \<Rightarrow> bool) \<Rightarrow> (exn + unit) \<times> log_event list" where
  "startup_event path_exists =
     (let missing_files = filter (\<lambda>f. \<not> path_exists f) required_files in
      if missing_files \<noteq> [] then
        (Inl (FileNotFoundError missing_files),
         [InfoStartingApi, ErrorMissingModelFiles missing_files])
      else (Inr (), [InfoStartingApi, InfoModelFilesPresent, InfoApiReady, InfoDocsReady]))"

text \<open>
  \<^verbatim>\<open>app.py\<close>, lines 249-324: the declared bounds \<^verbatim>\<open>Query(ge=1, le=30)\<close> and
  \<^verbatim>\<open>Query(ge=1, le=100)\<close> are checked by the framework before the handler body runs; the
  body passes the environment's key to \<open>process_new_cves\<close> and turns any exception into
  an \<^verbatim>\<open>HTTPException\<close> with status 502.
\<close>

definition predict_latest_cves ::
  "'x models \<Rightarrow> string option \<Rightarrow> int \<Rightarrow> (request \<Rightarrow> http_result) \<Rightarrow> int \<Rightarrow> int \<Rightarrow>
   (exn + scored_record list) \<times> log_event list" where
  "predict_latest_cves g env now http_get days_back max_results =
     (if \<not> (1 \<le> days_back \<and> days_back \<le> 30) \<or> \<not> (1 \<le> max_results \<and> max_results \<le> 100) then
        (Inl RequestValidationError, [])
      else
        (let api_key = env;
             log0 = (if \<not> truthy api_key then [WarnApiKeyNotSet] else [])
         in case process_new_cves g env now http_get days_back max_results api_key of
              (Inl e, lg) \<Rightarrow> (Inl (HTTPException 502 e), log0 @ lg @ [ErrorLatestCves e])
            | (Inr results, lg) \<Rightarrow> (Inr results, log0 @ lg)))"

subsection \<open>The loop body on one item\<close>

text \<open>
  What one iteration of the extraction loop appends (lines 243-247): a record when the text
  found by \<open>first_english\<close> is a non-empty string, nothing otherwise.
\<close>

definition kept_record :: "feed_item \<Rightarrow> cve_record option" where
  "kept_record item =
     (case item_desc_text item of
        Inl e \<Rightarrow> None
      | Inr None \<Rightarrow> None
      | Inr (Some t) \<Rightarrow>
          if t \<noteq> [] then Some \<lparr>cve_id = item_id item, description = t\<rparr> else None)"

subsection \<open>Fixtures: sample artifacts and feeds\<close>

definition const_classifier :: "int \<Rightarrow> real list \<Rightarrow> 'x classifier" where
  "const_classifier k ps = \<lparr>clf_predict = (\<lambda>X. Inr k), clf_predict_proba = (\<lambda>X. Inr ps)\<rparr>"

definition id_tfidf :: "string tfidf" where
  "id_tfidf = \<lparr>vec_transform = (\<lambda>d. Inr d)\<rparr>"

definition const_forest :: "int \<Rightarrow> real \<Rightarrow> 'x isolation_forest" where
  "const_forest l s = \<lparr>iso_predict = (\<lambda>X. Inr l), iso_decision_function = (\<lambda>X. Inr s)\<rparr>"

definition const_models :: "real \<Rightarrow> int \<Rightarrow> real \<Rightarrow> string models" where
  "const_models p l s =
     \<lparr>clf = Some (const_classifier (if p \<ge> 0.5 then 1 else 0) [binary64 (1 - p), p]),
      vectorizer = Some id_tfidf,
      anomaly_clf = Some (const_forest l s)\<rparr>"

text \<open>A vectorizer that raises on one description.\<close>

definition failing_tfidf :: "string \<Rightarrow> string tfidf" where
  "failing_tfidf bad =
     \<lparr>vec_transform = (\<lambda>d. if d = bad then Inl (ValueError ''cannot vectorize'') else Inr d)\<rparr>"

definition models_failing_on :: "string \<Rightarrow> real \<Rightarrow> int \<Rightarrow> real \<Rightarrow> string models" where
  "models_failing_on bad p l s = (const_models p l s)\<lparr>vectorizer := Some (failing_tfidf bad)\<rparr>"

definition const_feed :: "http_result \<Rightarrow> request \<Rightarrow> http_result" where
  "const_feed r = (\<lambda>req. r)"

definition feed_item_of :: "string option \<Rightarrow> (string \<times> string) list \<Rightarrow> feed_item" where
  "feed_item_of i ds =
     \<lparr>cve = Some \<lparr>cve_obj_id = i,
                  descriptions = Some (map (\<lambda>(l, t). \<lparr>lang = Some l, text_value = Some t\<rparr>) ds)\<rparr>\<rparr>"

definition ok_response :: "feed_item list \<Rightarrow> http_result" where
  "ok_response items = Response 200 (Inr \<lparr>vulnerabilities = Some items\<rparr>)"

definition files_present :: "string list \<Rightarrow> string \<Rightarrow> bool" where
  "files_present fs = (\<lambda>f. f \<in> set fs)"

section \<open>Properties\<close>

subsection \<open>Auxiliary facts\<close>

lemmas fixture_defs = const_models_def const_classifier_def id_tfidf_def const_forest_def
  failing_tfidf_def models_failing_on_def const_feed_def feed_item_of_def ok_response_def

lemmas fetch_defs = fetch_cves_from_nvd_def nvd_request_def resolve_api_key_def
  timedelta_days_def datetime_sub_def handle_response_def except_RequestException_def
  item_desc_text_def item_id_def item_cve_obj_def cve_items_def

lemma normalise_numeral:
  "normalise (numeral k) x e =
     (if 2 \<le> x then normalise (pred_numeral k) (x / 2) (e + 1)
      else if x < 1 \<and> - 1022 < e then normalise (pred_numeral k) (x * 2) (e - 1)
      else e)"
  by (simp add: numeral_eq_Suc)

lemma float_exponent_half:
  "1 / 2 \<le> \<bar>x\<bar> \<Longrightarrow> \<bar>x\<bar> < 1 \<Longrightarrow> float_exponent x = - 1"
  by (simp add: float_exponent_def normalise_numeral)

lemma float_exponent_quarter:
  "1 / 4 \<le> \<bar>x\<bar> \<Longrightarrow> \<bar>x\<bar> < 1 / 2 \<Longrightarrow> float_exponent x = - 2"
  by (simp add: float_exponent_def normalise_numeral)

lemmas binary64_eval = binary64_def float_exponent_half float_exponent_quarter
  round_half_even_def Let_def power_int_minus

lemma binary64_070:
  "binary64 0.70 = 6305039478318694 / 2 ^ 53"
  "binary64 (7 / 10) = 6305039478318694 / 2 ^ 53"
  by (simp_all add: binary64_eval)

lemma binary64_06999:
  "binary64 0.6999 = 6304138758393220 / 2 ^ 53"
  "binary64 (6999 / 10000) = 6304138758393220 / 2 ^ 53"
  by (simp_all add: binary64_eval)

lemma binary64_040:
  "binary64 0.40 = 7205759403792794 / 2 ^ 54"
  "binary64 (2 / 5) = 7205759403792794 / 2 ^ 54"
  by (simp_all add: binary64_eval)

lemma binary64_03999:
  "binary64 0.3999 = 7203957963941845 / 2 ^ 54"
  "binary64 (3999 / 10000) = 7203957963941845 / 2 ^ 54"
  by (simp_all add: binary64_eval)

lemma binary64_06001:
  "binary64 0.6001 = 5405220272770069 / 2 ^ 53"
  "binary64 (6001 / 10000) = 5405220272770069 / 2 ^ 53"
  by (simp_all add: binary64_eval)

lemmas float_literals = binary64_070 binary64_040

lemmas score_defs = score_cve_def predict_risk_def detect_anomaly_def float_literals

lemma round_half_even_nonneg: "0 \<le> y \<Longrightarrow> 0 \<le> round_half_even y"
  by (auto simp: round_half_even_def Let_def)

lemma round_half_even_le: "y \<le> of_int k \<Longrightarrow> round_half_even y \<le> k"
proof -
  assume a: "y \<le> of_int k"
  then have f: "\<lfloor>y\<rfloor> \<le> k" by (simp add: floor_le_iff; linarith)
  show ?thesis
  proof (cases "y = of_int \<lfloor>y\<rfloor>")
    case True
    then have "y - of_int \<lfloor>y\<rfloor> = 0" by simp
    then show ?thesis using f by (simp add: round_half_even_def Let_def)
  next
    case False
    then have "of_int \<lfloor>y\<rfloor> < y" using of_int_floor_le [of y] by linarith
    with a have "of_int \<lfloor>y\<rfloor> < (of_int k :: real)" by linarith
    then have "\<lfloor>y\<rfloor> < k" by simp
    then show ?thesis by (auto simp: round_half_even_def Let_def)
  qed
qed

lemma normalise_upper:
  "0 \<le> x \<Longrightarrow> x < 2 \<Longrightarrow>
   normalise n x e \<le> e \<and> x * 2 powi (e - normalise n x e) < 2"
proof (induction n arbitrary: x e)
  case 0
  then show ?case by simp
next
  case (Suc n)
  show ?case
  proof (cases "x < 1 \<and> - 1022 < e")
    case True
    from Suc.prems True have "0 \<le> x * 2" "x * 2 < 2" by simp_all
    from Suc.IH [OF this, of "e - 1"]
    have ih: "normalise n (x * 2) (e - 1) \<le> e - 1"
      "x * 2 * 2 powi (e - 1 - normalise n (x * 2) (e - 1)) < 2" by simp_all
    have "(2::real) powi (e - normalise n (x * 2) (e - 1))
        = 2 * 2 powi (e - 1 - normalise n (x * 2) (e - 1))"
      using power_int_add [of "2::real" 1 "e - 1 - normalise n (x * 2) (e - 1)"]
      by (simp add: algebra_simps)
    with ih Suc.prems True show ?thesis by (simp add: algebra_simps)
  next
    case False
    with Suc.prems show ?thesis by auto
  qed
qed

lemma binary64_unit_interval:
  assumes "0 \<le> r" and "r \<le> 1"
  shows "0 \<le> binary64 r \<and> binary64 r \<le> 1"
proof -
  let ?e = "float_exponent r"
  let ?ulp = "(2::real) powi (?e - 52)"
  have pos: "0 < ?ulp" by (simp add: zero_less_power_int)
  have lo: "0 \<le> binary64 r"
    using assms(1) pos round_half_even_nonneg [of "r / ?ulp"]
    by (simp add: binary64_def Let_def)
  have hi: "binary64 r \<le> 1"
  proof (cases "r = 1")
    case True
    then have "?e = 0" by (simp add: float_exponent_def normalise_numeral)
    with True show ?thesis
      by (simp add: binary64_def round_half_even_def Let_def power_int_minus)
  next
    case False
    with assms have r: "r < 1" by simp
    let ?m = "normalise 2099 (r * 2) (- 1)"
    have e: "?e = ?m"
      using assms(1) r by (simp add: float_exponent_def normalise_numeral)
    have "0 \<le> r * 2" "r * 2 < 2" using assms(1) r by simp_all
    from normalise_upper [OF this, of 2099 "- 1"]
    have m: "?m \<le> - 1" "r * 2 * 2 powi (- 1 - ?m) < 2" by simp_all
    have "(2::real) powi (52 - ?m) = 2 ^ 53 * 2 powi (- 1 - ?m)"
      using power_int_add [of "2::real" 53 "- 1 - ?m"] by (simp add: algebra_simps)
    with m(2) have "r * 2 powi (52 - ?m) < 2 ^ 53"
      by (simp add: algebra_simps)
    moreover have "r / 2 powi (?m - 52) = r * 2 powi (52 - ?m)"
      using power_int_minus [of "2::real" "?m - 52"] by (simp add: field_simps)
    ultimately have "r / 2 powi (?m - 52) \<le> of_int (2 ^ 53)" by simp
    then have "round_half_even (r / 2 powi (?m - 52)) \<le> 2 ^ 53"
      by (rule round_half_even_le)
    then have "(of_int (round_half_even (r / 2 powi (?m - 52))) :: real) \<le> 2 ^ 53"
      by (metis of_int_le_iff of_int_numeral of_int_power)
    then have "real_of_int (round_half_even (r / 2 powi (?m - 52))) * 2 powi (?m - 52)
        \<le> 2 ^ 53 * 2 powi (?m - 52)"
      by (intro mult_right_mono) (simp_all add: zero_le_power_int)
    also have "\<dots> = 2 powi (?m + 1)"
      using power_int_add [of "2::real" 53 "?m - 52"] by (simp add: algebra_simps)
    also have "\<dots> \<le> 2 powi 0"
      using m(1) by (intro power_int_increasing) simp_all
    finally show ?thesis
      by (simp add: binary64_def Let_def e)
  qed
  from lo hi show ?thesis ..
qed

lemma score_loop_results:
  "map Inr (fst (score_loop g n i cs)) = filter (\<lambda>r. \<not> isl r) (map (score_cve g) cs)"
proof (induction cs arbitrary: i)
  case Nil
  show ?case by simp
next
  case (Cons c cs)
  from Cons [of "i + 1"] show ?case
    by (cases "score_loop g n (i + 1) cs"; cases "score_cve g c") simp_all
qed

lemma score_loop_logs_error:
  "k < length cs \<Longrightarrow> score_cve g (cs ! k) = Inl e \<Longrightarrow>
   ErrorProcessing (cve_id (cs ! k)) e \<in> set (snd (score_loop g n i cs))"
proof (induction cs arbitrary: i k)
  case Nil
  then show ?case by simp
next
  case (Cons c cs)
  show ?case
  proof (cases k)
    case 0
    with Cons.prems show ?thesis
      by (cases "score_loop g n (i + 1) cs") simp
  next
    case (Suc j)
    with Cons.prems have "ErrorProcessing (cve_id (cs ! j)) e \<in> set (snd (score_loop g n (i + 1) cs))"
      using Cons.IH [of j "i + 1"] by simp
    with Suc show ?thesis
      by (cases "score_loop g n (i + 1) cs"; cases "score_cve g c") simp_all
  qed
qed

lemma filter_all_but_one:
  assumes "k < length xs" and "\<not> P (xs ! k)"
    and "\<forall>j < length xs. j \<noteq> k \<longrightarrow> P (xs ! j)"
  shows "filter P xs = take k xs @ drop (Suc k) xs"
proof -
  have a: "\<forall>x \<in> set (take k xs). P x"
  proof
    fix x assume "x \<in> set (take k xs)"
    then obtain j where "j < length (take k xs)" "take k xs ! j = x"
      by (auto simp: in_set_conv_nth)
    with assms show "P x" by auto
  qed
  have b: "\<forall>x \<in> set (drop (Suc k) xs). P x"
  proof
    fix x assume "x \<in> set (drop (Suc k) xs)"
    then obtain j where "j < length (drop (Suc k) xs)" "drop (Suc k) xs ! j = x"
      by (auto simp: in_set_conv_nth)
    with assms show "P x" by auto
  qed
  have "xs = take k xs @ xs ! k # drop (Suc k) xs"
    using assms(1) by (rule id_take_nth_drop)
  then have "filter P xs = filter P (take k xs @ xs ! k # drop (Suc k) xs)"
    by simp
  also have "\<dots> = take k xs @ drop (Suc k) xs"
    using a b assms(2) by simp
  finally show ?thesis .
qed

lemma fetch_result:
  "nvd_request env now days_back max_results api_key = Inr req \<Longrightarrow>
   fst (fetch_cves_from_nvd env now http_get days_back max_results api_key)
     = fst (handle_response (http_get req))"
  by (cases "handle_response (http_get req)") (simp add: fetch_cves_from_nvd_def)

lemma process_result:
  "fst (process_new_cves g env now http_get days_back max_results api_key) =
     (case fst (fetch_cves_from_nvd env now http_get days_back max_results api_key) of
        Inl e \<Rightarrow> Inl e
      | Inr cves \<Rightarrow> Inr (fst (score_loop g (length cves) 1 cves)))"
proof (cases "fetch_cves_from_nvd env now http_get days_back max_results api_key")
  case (Pair r lg)
  show ?thesis
  proof (cases r)
    case (Inl e)
    with Pair show ?thesis by (simp add: process_new_cves_def)
  next
    case (Inr cves)
    with Pair show ?thesis
      by (cases "score_loop g (length cves) 1 cves"; cases "cves = []")
        (simp_all add: process_new_cves_def)
  qed
qed

lemma handle_response_failed:
  assumes "r = RequestFailed msg \<or> (\<exists>status body. r = Response status body \<and> 400 \<le> status \<and> status < 600)"
  shows "\<exists>e. is_RequestException e \<and> handle_response r = (Inl e, [ErrorFetchingFromNvd e])"
  using assms by (auto simp: handle_response_def)

lemma extract_cves_ok:
  assumes "\<forall>item \<in> set items. \<not> isl (item_desc_text item)"
  shows "extract_cves items =
           (Inr (List.map_filter kept_record items),
            map (\<lambda>i. WarnNoEnglishDescription (item_id i))
              (filter (\<lambda>i. kept_record i = None) items))"
  using assms
proof (induction items)
  case Nil
  show ?case by simp
next
  case (Cons item items)
  then have ih: "extract_cves items =
           (Inr (List.map_filter kept_record items),
            map (\<lambda>i. WarnNoEnglishDescription (item_id i))
              (filter (\<lambda>i. kept_record i = None) items))"
    by simp
  from Cons.prems obtain dt where dt: "item_desc_text item = Inr dt"
    by (cases "item_desc_text item") auto
  show ?case
  proof (cases dt)
    case None
    with dt have "kept_record item = None"
      by (simp add: kept_record_def)
    with dt None ih show ?thesis
      by simp
  next
    case (Some t)
    show ?thesis
    proof (cases "t = []")
      case True
      with dt Some have "kept_record item = None"
        by (simp add: kept_record_def)
      with dt Some True ih show ?thesis
        by simp
    next
      case False
      with dt Some have "kept_record item = Some \<lparr>cve_id = item_id item, description = t\<rparr>"
        by (simp add: kept_record_def)
      with dt Some False ih show ?thesis
        by simp
    qed
  qed
qed

lemma fetch_ok:
  assumes "nvd_request env now days_back max_results api_key = Inr req"
    and "http_get req = Response status (Inr doc)"
    and "\<not> (400 \<le> status \<and> status < 600)"
    and "\<forall>item \<in> set (cve_items doc). \<not> isl (item_desc_text item)"
  shows "fetch_cves_from_nvd env now http_get days_back max_results api_key =
           (Inr (List.map_filter kept_record (cve_items doc)),
            snd (resolve_api_key env api_key)
              @ [InfoFetching (pubStartDate req) (pubEndDate req)]
              @ map (\<lambda>i. WarnNoEnglishDescription (item_id i))
                  (filter (\<lambda>i. kept_record i = None) (cve_items doc))
              @ [InfoFetched (length (List.map_filter kept_record (cve_items doc)))])"
  using assms(1,2,3) extract_cves_ok [OF assms(4)]
  by (simp add: fetch_cves_from_nvd_def handle_response_def)

lemma resolve_api_key_log:
  "set (snd (resolve_api_key env api_key)) \<subseteq> {WarnNoApiKey}"
  by (cases api_key) (auto simp: resolve_api_key_def)

lemma map_filter_append:
  "List.map_filter f (xs @ ys) = List.map_filter f xs @ List.map_filter f ys"
  by (simp add: List.map_filter_def)

lemma map_filter_member:
  "k < length xs \<Longrightarrow> f (xs ! k) = Some a \<Longrightarrow> a \<in> set (List.map_filter f xs)"
  by (force simp: List.map_filter_def)

lemma not_distinct_map_filter:
  assumes "i < j" and "j < length xs"
    and "f (xs ! i) = Some a" and "f (xs ! j) = Some b" and "h a = h b"
  shows "\<not> distinct (map h (List.map_filter f xs))"
proof -
  have 1: "xs = take j xs @ xs ! j # drop (Suc j) xs"
    using assms(2) by (rule id_take_nth_drop)
  have "i < length (take j xs)"
    using assms(1,2) by simp
  then have "take j xs = take i (take j xs) @ take j xs ! i # drop (Suc i) (take j xs)"
    by (rule id_take_nth_drop)
  then have 2: "take j xs = take i xs @ xs ! i # drop (Suc i) (take j xs)"
    using assms(1) by (simp add: min_def)
  have "xs = (take i xs @ xs ! i # drop (Suc i) (take j xs)) @ xs ! j # drop (Suc j) xs"
    using 1 2 by simp
  then have "List.map_filter f xs =
      List.map_filter f ((take i xs @ xs ! i # drop (Suc i) (take j xs)) @ xs ! j # drop (Suc j) xs)"
    by simp
  also have "\<dots> = List.map_filter f (take i xs) @ a # List.map_filter f (drop (Suc i) (take j xs))
      @ b # List.map_filter f (drop (Suc j) xs)"
    using assms(3,4) by (simp add: map_filter_append)
  finally show ?thesis
    using assms(5) by simp
qed

subsection \<open>Claims\<close>

text \<open>
  C1. The claim as stated fails at its own input \<open>p = 0.3999\<close>: the tier is LOW, but the
  confidence is the binary64 difference \<^verbatim>\<open>1.0 - 0.3999\<close>, which Python prints as
  \<^verbatim>\<open>0.6001000000000001\<close>. The exact difference lies halfway between two binary64
  numbers and is rounded to the even one, the neighbour above the float \<^verbatim>\<open>0.6001\<close>.
\<close>

theorem low_confidence_is_rounded_counterexample:
  "predict_risk (const_models (binary64 0.3999) 1 0) ''x''
     = Inr \<lparr>risk = ''LOW'', confidence = 5405220272770070 / 2 ^ 53, prediction_class = 0\<rparr>
   \<and> binary64 0.6001 = 5405220272770069 / 2 ^ 53
   \<and> (5405220272770070 / 2 ^ 53 :: real) \<noteq> 0.6001"
proof -
  have "binary64 (1 - 7203957963941845 / 2 ^ 54) = 5405220272770070 / 2 ^ 53"
    by (simp add: binary64_eval)
  then have "predict_risk (const_models (binary64 0.3999) 1 0) ''x''
     = Inr \<lparr>risk = ''LOW'', confidence = 5405220272770070 / 2 ^ 53, prediction_class = 0\<rparr>"
    by (simp add: predict_risk_def fixture_defs float_literals binary64_03999)
  then show ?thesis
    by (simp add: binary64_06001)
qed

text \<open>
  C1, amended. Whenever the artifacts are loaded and the classifier returns the class-1
  probability \<open>p\<close> for the description, \<open>predict_risk\<close> returns tier HIGH with confidence
  \<open>p\<close> when \<open>p\<close> is at least the float \<^verbatim>\<open>0.70\<close>, tier MEDIUM with confidence \<open>p\<close> when
  \<open>p\<close> is below that and at least the float \<^verbatim>\<open>0.40\<close>, and tier LOW otherwise, with the
  binary64 difference \<^verbatim>\<open>1.0 - p\<close> as confidence. The tier and the confidence are given
  by \<open>p\<close> alone.
\<close>

theorem predict_risk_tiers:
  assumes "clf g = Some c" and "vectorizer g = Some v"
    and "vec_transform v d = Inr X"
    and "clf_predict c X = Inr k"
    and "clf_predict_proba c X = Inr ps" and "1 < length ps" and "ps ! 1 = p"
  shows "predict_risk g d =
           Inr \<lparr>risk = (if p \<ge> binary64 0.70 then ''HIGH''
                        else if p \<ge> binary64 0.40 then ''MEDIUM'' else ''LOW''),
                confidence = (if p \<ge> binary64 0.40 then p else binary64 (1 - p)),
                prediction_class = k\<rparr>"
proof -
  have "binary64 0.40 \<le> binary64 0.70"
    by (simp add: float_literals)
  with assms show ?thesis
    by (simp add: predict_risk_def Let_def)
qed

theorem predict_risk_tiers_witness:
  "predict_risk (const_models (binary64 0.70) 1 0) ''x''
     = Inr \<lparr>risk = ''HIGH'', confidence = binary64 0.70, prediction_class = 1\<rparr>
   \<and> predict_risk (const_models (binary64 0.6999) 1 0) ''x''
     = Inr \<lparr>risk = ''MEDIUM'', confidence = binary64 0.6999, prediction_class = 1\<rparr>
   \<and> predict_risk (const_models (binary64 0.40) 1 0) ''x''
     = Inr \<lparr>risk = ''MEDIUM'', confidence = binary64 0.40, prediction_class = 0\<rparr>
   \<and> predict_risk (const_models (binary64 0.3999) 1 0) ''x''
     = Inr \<lparr>risk = ''LOW'', confidence = 5405220272770070 / 2 ^ 53, prediction_class = 0\<rparr>"
proof -
  have m: "clf (const_models p l s)
      = Some (const_classifier (if p \<ge> 0.5 then 1 else 0) [binary64 (1 - p), p])"
    "vectorizer (const_models p l s) = Some id_tfidf" for p l s
    by (simp_all add: const_models_def)
  have t: "vec_transform id_tfidf ''x'' = Inr ''x''"
    by (simp add: id_tfidf_def)
  have c: "clf_predict (const_classifier k ps) ''x'' = Inr k"
    "clf_predict_proba (const_classifier k ps) ''x'' = Inr ps" for k ps
    by (simp_all add: const_classifier_def)
  have l: "1 < length [q, p]" "[q, p] ! 1 = p" for p q :: real
    by simp_all
  have g: "predict_risk (const_models p l s) ''x'' =
      Inr \<lparr>risk = (if p \<ge> binary64 0.70 then ''HIGH''
                   else if p \<ge> binary64 0.40 then ''MEDIUM'' else ''LOW''),
           confidence = (if p \<ge> binary64 0.40 then p else binary64 (1 - p)),
           prediction_class = (if p \<ge> 0.5 then 1 else 0)\<rparr>" for p l s
    using predict_risk_tiers [OF m(1) m(2) t c(1) c(2) l(1) l(2)] .
  have d: "binary64 (1 - 7203957963941845 / 2 ^ 54) = 5405220272770070 / 2 ^ 53"
    by (simp add: binary64_eval)
  show ?thesis
    using g [of "binary64 0.70" 1 0] g [of "binary64 0.6999" 1 0]
      g [of "binary64 0.40" 1 0] g [of "binary64 0.3999" 1 0] d
    by (simp add: binary64_070 binary64_06999 binary64_040 binary64_03999)
qed

text \<open>
  C2. When the fetch returned the records \<open>cves\<close> and scoring raises for exactly one of them,
  the record at position \<open>k\<close>, \<open>process_new_cves\<close> returns \<open>length cves - 1\<close> entries:
  they are the results of scoring every other record on its own, in the order of the fetch,
  and the log holds the identifier and the exception of the skipped record.
\<close>

theorem process_new_cves_skips_one_failure:
  assumes "fetch_cves_from_nvd env now http_get days_back max_results api_key = (Inr cves, lg)"
    and "k < length cves"
    and "score_cve g (cves ! k) = Inl e"
    and "\<forall>j < length cves. j \<noteq> k \<longrightarrow> \<not> isl (score_cve g (cves ! j))"
  shows "\<exists>results lg'.
           process_new_cves g env now http_get days_back max_results api_key = (Inr results, lg')
           \<and> length results = length cves - 1
           \<and> map Inr results = map (score_cve g) (take k cves @ drop (Suc k) cves)
           \<and> ErrorProcessing (cve_id (cves ! k)) e \<in> set lg'"
proof -
  obtain results lg2 where sl: "score_loop g (length cves) 1 cves = (results, lg2)"
    by (cases "score_loop g (length cves) 1 cves")
  from assms(2) have ne: "cves \<noteq> []" by auto
  have p: "process_new_cves g env now http_get days_back max_results api_key =
      (Inr results, [InfoStartingProcessing] @ lg @ lg2 @ [InfoCompleted (length results) (length cves)])"
    using assms(1) ne sl by (simp add: process_new_cves_def)
  have "map Inr results = filter (\<lambda>r. \<not> isl r) (map (score_cve g) cves)"
    using score_loop_results [of g "length cves" 1 cves] sl by simp
  also have "\<dots> = take k (map (score_cve g) cves) @ drop (Suc k) (map (score_cve g) cves)"
    using assms(2,3,4) by (intro filter_all_but_one) simp_all
  also have "\<dots> = map (score_cve g) (take k cves @ drop (Suc k) cves)"
    by (simp add: take_map drop_map)
  finally have m: "map Inr results = map (score_cve g) (take k cves @ drop (Suc k) cves)" .
  then have "length (map Inr results :: (exn + scored_record) list) = length (map (score_cve g) (take k cves @ drop (Suc k) cves))"
    by simp
  then have l: "length results = length cves - 1"
    using assms(2) by simp
  have "ErrorProcessing (cve_id (cves ! k)) e \<in> set lg2"
    using score_loop_logs_error [OF assms(2,3), of "length cves" 1] sl by simp
  with p m l show ?thesis by simp
qed

theorem process_new_cves_skips_one_failure_witness:
  "fst (process_new_cves (models_failing_on ''bad'' 0.875 1 0.125) None 1700000000
       (const_feed (ok_response
          [feed_item_of (Some ''CVE-2024-0001'') [(''en'', ''heap overflow'')],
           feed_item_of (Some ''CVE-2024-0002'') [(''en'', ''bad'')],
           feed_item_of (Some ''CVE-2024-0003'') [(''es'', ''hola''), (''en'', ''sql injection'')]]))
       7 20 (Some ''key''))
   = Inr [\<lparr>out_cve_id = ''CVE-2024-0001'', out_risk = ''HIGH'', out_confidence = 0.875,
            out_anomalous = False\<rparr>,
          \<lparr>out_cve_id = ''CVE-2024-0003'', out_risk = ''HIGH'', out_confidence = 0.875,
            out_anomalous = False\<rparr>]"
proof -
  let ?g = "models_failing_on ''bad'' 0.875 1 0.125"
  let ?c1 = "\<lparr>cve_id = ''CVE-2024-0001'', description = ''heap overflow''\<rparr>"
  let ?c2 = "\<lparr>cve_id = ''CVE-2024-0002'', description = ''bad''\<rparr>"
  let ?c3 = "\<lparr>cve_id = ''CVE-2024-0003'', description = ''sql injection''\<rparr>"
  let ?cves = "[?c1, ?c2, ?c3]"
  let ?feed = "const_feed (ok_response
          [feed_item_of (Some ''CVE-2024-0001'') [(''en'', ''heap overflow'')],
           feed_item_of (Some ''CVE-2024-0002'') [(''en'', ''bad'')],
           feed_item_of (Some ''CVE-2024-0003'') [(''es'', ''hola''), (''en'', ''sql injection'')]])"
  have f: "fetch_cves_from_nvd None 1700000000 ?feed 7 20 (Some ''key'')
     = (Inr ?cves, [InfoFetching 1699395200 1700000000, InfoFetched 3])"
    by (simp add: fetch_defs fixture_defs)
  have k: "(1::nat) < length ?cves" by simp
  have s2: "score_cve ?g (?cves ! 1) = Inl (ValueError ''cannot vectorize'')"
    by (simp add: score_defs fixture_defs)
  have s1: "score_cve ?g ?c1 =
      Inr \<lparr>out_cve_id = ''CVE-2024-0001'', out_risk = ''HIGH'', out_confidence = 0.875, out_anomalous = False\<rparr>"
    by (simp add: score_defs fixture_defs)
  have s3: "score_cve ?g ?c3 =
      Inr \<lparr>out_cve_id = ''CVE-2024-0003'', out_risk = ''HIGH'', out_confidence = 0.875, out_anomalous = False\<rparr>"
    by (simp add: score_defs fixture_defs)
  have others: "\<forall>j < length ?cves. j \<noteq> 1 \<longrightarrow> \<not> isl (score_cve ?g (?cves ! j))"
  proof (intro allI impI)
    fix j :: nat assume "j < length ?cves" and "j \<noteq> 1"
    then have "j = 0 \<or> j = 2" by auto
    then show "\<not> isl (score_cve ?g (?cves ! j))"
      using s1 s3 by auto
  qed
  from process_new_cves_skips_one_failure [OF f k s2 others]
  obtain results lg' where
    p: "process_new_cves ?g None 1700000000 ?feed 7 20 (Some ''key'') = (Inr results, lg')"
    and m: "map Inr results = map (score_cve ?g) (take 1 ?cves @ drop (Suc 1) ?cves)"
    by blast
  from m have "map Inr results = [score_cve ?g ?c1, score_cve ?g ?c3]"
    by simp
  then have "results =
     [\<lparr>out_cve_id = ''CVE-2024-0001'', out_risk = ''HIGH'', out_confidence = 0.875, out_anomalous = False\<rparr>,
      \<lparr>out_cve_id = ''CVE-2024-0003'', out_risk = ''HIGH'', out_confidence = 0.875, out_anomalous = False\<rparr>]"
    unfolding s1 s3 by (auto simp: map_eq_Cons_conv)
  with p show ?thesis by simp
qed

text \<open>
  C3. Whenever the vectorizer and the novelty model answer, \<open>detect_anomaly\<close> returns
  \<open>anomalous\<close> true exactly when the model's predicted label is \<open>-1\<close>, returns the value
  of the decision function unchanged as \<open>anomaly_score\<close>, and returns one of two fixed
  status strings chosen by the flag alone. The classifier takes no part: replacing it by
  anything, or removing it, leaves the result unchanged.
\<close>

theorem detect_anomaly_reads_model_only:
  assumes "anomaly_clf g = Some a" and "vectorizer g = Some v"
    and "vec_transform v d = Inr X"
    and "iso_predict a X = Inr label"
    and "iso_decision_function a X = Inr s"
  shows "detect_anomaly g d =
           Inr \<lparr>anomalous = (label = - 1), anomaly_score = s,
                threshold_info = (if label = - 1 then ''outside historical CVE patterns''
                                  else ''within normal patterns'')\<rparr>
         \<and> detect_anomaly (g\<lparr>clf := c'\<rparr>) d = detect_anomaly g d"
  using assms by (simp add: detect_anomaly_def Let_def)

theorem detect_anomaly_reads_model_only_witness:
  "detect_anomaly (const_models 0.875 (- 1) (- 0.25)) ''x'' =
     Inr \<lparr>anomalous = True, anomaly_score = - 0.25, threshold_info = ''outside historical CVE patterns''\<rparr>
   \<and> detect_anomaly (const_models 0.875 1 0.25) ''x'' =
     Inr \<lparr>anomalous = False, anomaly_score = 0.25, threshold_info = ''within normal patterns''\<rparr>
   \<and> detect_anomaly ((const_models 0.875 1 0.25)\<lparr>clf := None\<rparr>) ''x'' =
     detect_anomaly (const_models 0.875 1 0.25) ''x''"
proof -
  have m: "anomaly_clf (const_models p l s) = Some (const_forest l s)"
    "vectorizer (const_models p l s) = Some id_tfidf" for p l s
    by (simp_all add: const_models_def)
  have t: "vec_transform id_tfidf ''x'' = Inr ''x''"
    by (simp add: id_tfidf_def)
  have a: "iso_predict (const_forest l s) ''x'' = Inr l"
    "iso_decision_function (const_forest l s) ''x'' = Inr s" for l s
    by (simp_all add: const_forest_def)
  note g = detect_anomaly_reads_model_only [OF m(1) m(2) t a(1) a(2)]
  show ?thesis
    using g [of "0.875" "- 1" "- 0.25" None] g [of "0.875" 1 "0.25" None]
    by simp
qed

text \<open>
  C4. For every class-1 probability \<open>p\<close> in \<open>[0,1]\<close> returned by the classifier,
  \<open>predict_risk\<close> returns a confidence in \<open>[0,1]\<close>: it is \<open>p\<close> for the tiers HIGH and
  MEDIUM and the binary64 difference \<^verbatim>\<open>1.0 - p\<close> for the tier LOW, which rounding keeps
  in \<open>[0,1]\<close>.
\<close>

theorem predict_risk_confidence_in_unit_interval:
  assumes "clf g = Some c" and "vectorizer g = Some v"
    and "vec_transform v d = Inr X"
    and "clf_predict c X = Inr k"
    and "clf_predict_proba c X = Inr ps" and "1 < length ps" and "ps ! 1 = p"
    and "0 \<le> p" and "p \<le> 1"
  shows "\<exists>r. predict_risk g d = Inr r \<and> 0 \<le> confidence r \<and> confidence r \<le> 1
           \<and> (risk r = ''HIGH'' \<or> risk r = ''MEDIUM'' \<or> risk r = ''LOW'')
           \<and> (risk r = ''HIGH'' \<longrightarrow> confidence r = p)
           \<and> (risk r = ''MEDIUM'' \<longrightarrow> confidence r = p)
           \<and> (risk r = ''LOW'' \<longrightarrow> confidence r = binary64 (1 - p))"
proof -
  from assms(8,9) have "0 \<le> 1 - p" "1 - p \<le> 1" by simp_all
  then have "0 \<le> binary64 (1 - p) \<and> binary64 (1 - p) \<le> 1"
    by (rule binary64_unit_interval)
  with assms show ?thesis
    by (simp add: predict_risk_def Let_def)
qed

theorem predict_risk_confidence_in_unit_interval_witness:
  "(0::real) \<le> 0.25 \<and> (0.25::real) \<le> 1 \<and>
   (\<exists>r. predict_risk (const_models 0.25 1 0) ''x'' = Inr r \<and> risk r = ''LOW''
      \<and> confidence r = 0.75 \<and> 0 \<le> confidence r \<and> confidence r \<le> 1)"
proof -
  have m: "clf (const_models p l s)
      = Some (const_classifier (if p \<ge> 0.5 then 1 else 0) [binary64 (1 - p), p])"
    "vectorizer (const_models p l s) = Some id_tfidf" for p l s
    by (simp_all add: const_models_def)
  have t: "vec_transform id_tfidf ''x'' = Inr ''x''"
    by (simp add: id_tfidf_def)
  have c: "clf_predict (const_classifier k ps) ''x'' = Inr k"
    "clf_predict_proba (const_classifier k ps) ''x'' = Inr ps" for k ps
    by (simp_all add: const_classifier_def)
  have l: "1 < length [q, p]" "[q, p] ! 1 = p" for p q :: real
    by simp_all
  have b: "(0::real) \<le> 0.25" "(0.25::real) \<le> 1" by simp_all
  from predict_risk_confidence_in_unit_interval [OF m(1) m(2) t c(1) c(2) l(1) l(2) b, of 1 0]
  obtain r where r: "predict_risk (const_models 0.25 1 0) ''x'' = Inr r"
    "0 \<le> confidence r" "confidence r \<le> 1" by blast
  have "binary64 (1 - 0.25) = 0.75"
    by (simp add: binary64_eval)
  then have "predict_risk (const_models 0.25 1 0) ''x''
      = Inr \<lparr>risk = ''LOW'', confidence = 0.75, prediction_class = 0\<rparr>"
    by (simp add: predict_risk_def fixture_defs float_literals)
  with r b show ?thesis by auto
qed

text \<open>
  C5. The claim as stated fails for a status that is not a success and that
  \<^verbatim>\<open>raise_for_status\<close> does not reject: with status 304 or 600 and a body that parses,
  \<open>fetch_cves_from_nvd\<close> returns the records of the body and \<open>process_new_cves\<close> scores
  them.
\<close>

theorem unrejected_status_counterexample:
  "fst (fetch_cves_from_nvd None 1700000000
        (const_feed (Response 304 (Inr \<lparr>vulnerabilities =
           Some [feed_item_of (Some ''CVE-2024-0001'') [(''en'', ''heap overflow'')]]\<rparr>)))
        7 20 None)
     = Inr [\<lparr>cve_id = ''CVE-2024-0001'', description = ''heap overflow''\<rparr>]
   \<and> fst (process_new_cves (const_models 0.875 1 0.125) None 1700000000
        (const_feed (Response 304 (Inr \<lparr>vulnerabilities =
           Some [feed_item_of (Some ''CVE-2024-0001'') [(''en'', ''heap overflow'')]]\<rparr>)))
        7 20 None)
     = Inr [\<lparr>out_cve_id = ''CVE-2024-0001'', out_risk = ''HIGH'', out_confidence = 0.875,
              out_anomalous = False\<rparr>]
   \<and> fst (process_new_cves (const_models 0.875 1 0.125) None 1700000000
        (const_feed (Response 600 (Inr \<lparr>vulnerabilities =
           Some [feed_item_of (Some ''CVE-2024-0001'') [(''en'', ''heap overflow'')]]\<rparr>)))
        7 20 None)
     = Inr [\<lparr>out_cve_id = ''CVE-2024-0001'', out_risk = ''HIGH'', out_confidence = 0.875,
              out_anomalous = False\<rparr>]"
  by (simp add: process_new_cves_def fetch_defs score_defs fixture_defs float_literals)

text \<open>
  C5, amended. When the one network call raises (connection error, timeout) or the feed
  answers with a status from 400 to 599, the ones \<^verbatim>\<open>raise_for_status\<close> rejects,
  \<open>fetch_cves_from_nvd\<close> fails with a \<^verbatim>\<open>RequestException\<close>, which it logs, and returns no
  records; \<open>process_new_cves\<close> fails with the same exception and returns no records either.
\<close>

theorem upstream_failure_aborts_batch:
  assumes "nvd_request env now days_back max_results api_key = Inr req"
    and "http_get req = RequestFailed msg
         \<or> (\<exists>status body. http_get req = Response status body \<and> 400 \<le> status \<and> status < 600)"
  shows "\<exists>e lg lg'. is_RequestException e
           \<and> fetch_cves_from_nvd env now http_get days_back max_results api_key = (Inl e, lg)
           \<and> ErrorFetchingFromNvd e \<in> set lg
           \<and> process_new_cves g env now http_get days_back max_results api_key = (Inl e, lg')"
proof -
  from handle_response_failed [OF assms(2)] obtain e where
    e: "is_RequestException e" "handle_response (http_get req) = (Inl e, [ErrorFetchingFromNvd e])"
    by blast
  let ?lg = "snd (resolve_api_key env api_key)
             @ [InfoFetching (pubStartDate req) (pubEndDate req)] @ [ErrorFetchingFromNvd e]"
  have f: "fetch_cves_from_nvd env now http_get days_back max_results api_key = (Inl e, ?lg)"
    using assms(1) e(2) by (simp add: fetch_cves_from_nvd_def)
  then have "process_new_cves g env now http_get days_back max_results api_key
      = (Inl e, [InfoStartingProcessing] @ ?lg @ [ErrorFailedToFetch e])"
    by (simp add: process_new_cves_def)
  with e(1) f show ?thesis by simp
qed

theorem upstream_failure_aborts_batch_witness:
  "fst (fetch_cves_from_nvd None 1700000000 (const_feed (RequestFailed ''timed out'')) 7 20 None)
     = Inl (RequestException ''timed out'')
   \<and> fst (process_new_cves (const_models 0.875 1 0.125) None 1700000000
            (const_feed (RequestFailed ''timed out'')) 7 20 None)
     = Inl (RequestException ''timed out'')
   \<and> fst (process_new_cves (const_models 0.875 1 0.125) None 1700000000
            (const_feed (Response 503 (Inr \<lparr>vulnerabilities = None\<rparr>))) 7 20 None)
     = Inl (HTTPError 503)"
proof -
  let ?req = "\<lparr>pubStartDate = 1699395200, pubEndDate = 1700000000, resultsPerPage = 20,
               apiKey = None\<rparr>"
  have r: "nvd_request None 1700000000 7 20 None = Inr ?req"
    by (simp add: fetch_defs)
  have a: "const_feed (RequestFailed ''timed out'') ?req = RequestFailed ''timed out''
       \<or> (\<exists>status body. const_feed (RequestFailed ''timed out'') ?req = Response status body
            \<and> 400 \<le> status \<and> status < 600)"
    by (simp add: const_feed_def)
  have b: "const_feed (Response 503 (Inr \<lparr>vulnerabilities = None\<rparr>)) ?req = RequestFailed ''''
       \<or> (\<exists>status body. const_feed (Response 503 (Inr \<lparr>vulnerabilities = None\<rparr>)) ?req
              = Response status body \<and> 400 \<le> status \<and> status < 600)"
    by (simp add: const_feed_def)
  have fa: "fst (fetch_cves_from_nvd None 1700000000 (const_feed (RequestFailed ''timed out'')) 7 20 None)
     = Inl (RequestException ''timed out'')"
    by (simp add: fetch_defs fixture_defs)
  have fb: "fst (fetch_cves_from_nvd None 1700000000
       (const_feed (Response 503 (Inr \<lparr>vulnerabilities = None\<rparr>))) 7 20 None) = Inl (HTTPError 503)"
    by (simp add: fetch_defs fixture_defs)
  from upstream_failure_aborts_batch
         [where http_get = "const_feed (RequestFailed ''timed out'')"
            and g = "const_models 0.875 1 0.125", OF r a] fa
  have pa: "fst (process_new_cves (const_models 0.875 1 0.125) None 1700000000
            (const_feed (RequestFailed ''timed out'')) 7 20 None)
     = Inl (RequestException ''timed out'')"
    by auto
  from upstream_failure_aborts_batch
         [where http_get = "const_feed (Response 503 (Inr \<lparr>vulnerabilities = None\<rparr>))"
            and g = "const_models 0.875 1 0.125", OF r b] fb
  have pb: "fst (process_new_cves (const_models 0.875 1 0.125) None 1700000000
            (const_feed (Response 503 (Inr \<lparr>vulnerabilities = None\<rparr>))) 7 20 None)
     = Inl (HTTPError 503)"
    by auto
  from fa pa pb show ?thesis by simp
qed

text \<open>
  C6. The claim as stated fails: \<open>process_new_cves\<close> and \<open>fetch_cves_from_nvd\<close> check no
  range. With \<open>days_back = 0\<close> and \<open>max_results = 500\<close> the request is built and sent, and
  the records of the response are returned and scored.
\<close>

theorem pipeline_accepts_out_of_range_counterexample:
  "nvd_request None 1700000000 0 500 None
     = Inr \<lparr>pubStartDate = 1700000000, pubEndDate = 1700000000, resultsPerPage = 500,
            apiKey = None\<rparr>
   \<and> fst (fetch_cves_from_nvd None 1700000000
        (const_feed (ok_response [feed_item_of (Some ''CVE-2024-0001'') [(''en'', ''heap overflow'')]]))
        0 500 None)
     = Inr [\<lparr>cve_id = ''CVE-2024-0001'', description = ''heap overflow''\<rparr>]
   \<and> fst (process_new_cves (const_models 0.875 1 0.125) None 1700000000
        (const_feed (ok_response [feed_item_of (Some ''CVE-2024-0001'') [(''en'', ''heap overflow'')]]))
        0 500 None)
     = Inr [\<lparr>out_cve_id = ''CVE-2024-0001'', out_risk = ''HIGH'', out_confidence = 0.875,
              out_anomalous = False\<rparr>]"
  by (simp add: process_new_cves_def fetch_defs score_defs fixture_defs)

text \<open>
  C6, amended. The range check is the one declared on the HTTP endpoint: with \<open>days_back\<close>
  outside \<open>[1,30]\<close> or \<open>max_results\<close> outside \<open>[1,100]\<close>, \<open>predict_latest_cves\<close> answers
  with a validation error and an empty log, whatever the artifacts and the feed are: the
  pipeline is not entered, so no artifact is used and no network call is made.
\<close>

theorem endpoint_rejects_out_of_range:
  assumes "days_back < 1 \<or> 30 < days_back \<or> max_results < 1 \<or> 100 < max_results"
  shows "predict_latest_cves g env now http_get days_back max_results
         = (Inl RequestValidationError, [])"
  using assms by (auto simp: predict_latest_cves_def)

theorem endpoint_rejects_out_of_range_witness:
  "((0::int) < 1 \<or> (30::int) < 0 \<or> (500::int) < 1 \<or> (100::int) < 500)
   \<and> predict_latest_cves (const_models 0.875 1 0.125) None 1700000000
        (const_feed (ok_response [feed_item_of (Some ''CVE-2024-0001'') [(''en'', ''heap overflow'')]]))
        0 500
      = (Inl RequestValidationError, [])"
proof -
  have h: "(0::int) < 1 \<or> (30::int) < 0 \<or> (500::int) < 1 \<or> (100::int) < 500" by simp
  from endpoint_rejects_out_of_range [OF h] h show ?thesis by simp
qed

text \<open>
  C7. The claim as stated fails. The three files exist, so the startup hook of the API
  passes, but unpickling the classifier fails: the import sets all three globals to
  \<^verbatim>\<open>None\<close> and completes, \<open>predict_risk\<close> then raises \<^verbatim>\<open>ValueError\<close> on the call, and
  \<open>process_new_cves\<close> catches that error for each record and returns an empty list.
\<close>

theorem load_failure_is_per_call_counterexample:
  "fst (startup_event (files_present required_files)) = Inr ()
   \<and> fst (load_models (Inl (LoadFailed ''cannot unpickle'')) (Inr id_tfidf) (Inr (const_forest 1 0.125)))
       = \<lparr>clf = None, vectorizer = None, anomaly_clf = None\<rparr>
   \<and> predict_risk
        (fst (load_models (Inl (LoadFailed ''cannot unpickle'')) (Inr id_tfidf) (Inr (const_forest 1 0.125))))
        ''heap overflow''
       = Inl (ValueError ''Models not loaded. Cannot perform prediction.'')
   \<and> fst (process_new_cves
        (fst (load_models (Inl (LoadFailed ''cannot unpickle'')) (Inr id_tfidf) (Inr (const_forest 1 0.125))))
        None 1700000000
        (const_feed (ok_response [feed_item_of (Some ''CVE-2024-0001'') [(''en'', ''heap overflow'')]]))
        7 20 None)
       = Inr []"
  by (simp add: startup_event_def files_present_def required_files_def load_models_def
      load_failed_def process_new_cves_def fetch_defs score_defs fixture_defs)

text \<open>
  C7, amended. If any of the three loads fails at import, all three globals are
  \<^verbatim>\<open>None\<close> and every later call of \<open>predict_risk\<close> and of \<open>detect_anomaly\<close> raises its
  \<^verbatim>\<open>ValueError\<close> (models not loaded). If all three loads succeed, those guards never
  fire: every exception of \<open>predict_risk\<close> or \<open>detect_anomaly\<close> is one that a call into
  the artifacts raised for this description, or the \<^verbatim>\<open>IndexError\<close> of
  \<^verbatim>\<open>probabilities[1]\<close>. The startup hook of the API raises \<^verbatim>\<open>FileNotFoundError\<close> when
  one of the three files is missing.
\<close>

theorem unloaded_artifacts_raise_per_call:
  "(isl l1 \<or> isl l2 \<or> isl l3 \<longrightarrow>
      fst (load_models l1 l2 l3) = \<lparr>clf = None, vectorizer = None, anomaly_clf = None\<rparr>
      \<and> predict_risk (fst (load_models l1 l2 l3)) d
          = Inl (ValueError ''Models not loaded. Cannot perform prediction.'')
      \<and> detect_anomaly (fst (load_models l1 l2 l3)) d
          = Inl (ValueError ''Anomaly model or vectorizer not loaded.''))
   \<and> (l1 = Inr c \<and> l2 = Inr v \<and> l3 = Inr a \<longrightarrow>
        (\<forall>e. predict_risk (fst (load_models l1 l2 l3)) d = Inl e \<longrightarrow>
              vec_transform v d = Inl e
              \<or> (\<exists>X. vec_transform v d = Inr X
                     \<and> (clf_predict c X = Inl e \<or> clf_predict_proba c X = Inl e))
              \<or> e = IndexError)
        \<and> (\<forall>e. detect_anomaly (fst (load_models l1 l2 l3)) d = Inl e \<longrightarrow>
              vec_transform v d = Inl e
              \<or> (\<exists>X. vec_transform v d = Inr X
                     \<and> (iso_predict a X = Inl e \<or> iso_decision_function a X = Inl e))))
   \<and> ((\<exists>f \<in> set required_files. \<not> path_exists f) \<longrightarrow>
        (\<exists>missing lg. startup_event path_exists = (Inl (FileNotFoundError missing), lg)))"
proof (intro conjI impI)
  assume a: "isl l1 \<or> isl l2 \<or> isl l3"
  then show n: "fst (load_models l1 l2 l3) = \<lparr>clf = None, vectorizer = None, anomaly_clf = None\<rparr>"
    by (cases l1; cases l2; cases l3) (simp_all add: load_models_def load_failed_def)
  show "predict_risk (fst (load_models l1 l2 l3)) d
          = Inl (ValueError ''Models not loaded. Cannot perform prediction.'')"
    unfolding n by (simp add: predict_risk_def)
  show "detect_anomaly (fst (load_models l1 l2 l3)) d
          = Inl (ValueError ''Anomaly model or vectorizer not loaded.'')"
    unfolding n by (simp add: detect_anomaly_def)
next
  assume l: "l1 = Inr c \<and> l2 = Inr v \<and> l3 = Inr a"
  then have g: "fst (load_models l1 l2 l3)
      = \<lparr>clf = Some c, vectorizer = Some v, anomaly_clf = Some a\<rparr>"
    by (simp add: load_models_def)
  show "\<forall>e. predict_risk (fst (load_models l1 l2 l3)) d = Inl e \<longrightarrow>
              vec_transform v d = Inl e
              \<or> (\<exists>X. vec_transform v d = Inr X
                     \<and> (clf_predict c X = Inl e \<or> clf_predict_proba c X = Inl e))
              \<or> e = IndexError"
    unfolding g
    by (auto simp: predict_risk_def Let_def split: sum.splits if_splits)
  show "\<forall>e. detect_anomaly (fst (load_models l1 l2 l3)) d = Inl e \<longrightarrow>
              vec_transform v d = Inl e
              \<or> (\<exists>X. vec_transform v d = Inr X
                     \<and> (iso_predict a X = Inl e \<or> iso_decision_function a X = Inl e))"
    unfolding g
    by (auto simp: detect_anomaly_def Let_def split: sum.splits)
next
  assume "\<exists>f \<in> set required_files. \<not> path_exists f"
  then have "filter (\<lambda>f. \<not> path_exists f) required_files \<noteq> []"
    by (simp add: filter_empty_conv)
  then show "\<exists>missing lg. startup_event path_exists = (Inl (FileNotFoundError missing), lg)"
    by (simp add: startup_event_def Let_def)
qed

theorem unloaded_artifacts_raise_per_call_witness:
  "predict_risk (fst (load_models (Inl (NotFound ''rf_model.pkl'')) (Inr id_tfidf)
                        (Inr (const_forest 1 0.125)))) ''heap overflow''
     = Inl (ValueError ''Models not loaded. Cannot perform prediction.'')
   \<and> detect_anomaly (fst (load_models (Inl (NotFound ''rf_model.pkl'')) (Inr id_tfidf)
                        (Inr (const_forest 1 0.125)))) ''heap overflow''
     = Inl (ValueError ''Anomaly model or vectorizer not loaded.'')
   \<and> predict_risk (fst (load_models (Inr (const_classifier 1 [0.125, 0.875])) (Inr id_tfidf)
                        (Inr (const_forest 1 0.125)))) ''heap overflow''
     \<noteq> Inl (ValueError ''Models not loaded. Cannot perform prediction.'')
   \<and> detect_anomaly (fst (load_models (Inr (const_classifier 1 [0.125, 0.875])) (Inr id_tfidf)
                        (Inr (const_forest 1 0.125)))) ''heap overflow''
     \<noteq> Inl (ValueError ''Anomaly model or vectorizer not loaded.'')
   \<and> predict_risk (fst (load_models (Inr (const_classifier 1 [0.125, 0.875]))
                        (Inr (failing_tfidf ''bad'')) (Inr (const_forest 1 0.125)))) ''bad''
     = Inl (ValueError ''cannot vectorize'')
   \<and> fst (startup_event (files_present [''rf_model.pkl'', ''tfidf_vectorizer.pkl'']))
     = Inl (FileNotFoundError [''anomaly_model.pkl''])"
proof -
  let ?c = "const_classifier 1 [0.125, 0.875] :: string classifier"
  let ?a = "const_forest 1 0.125 :: string isolation_forest"
  let ?missing = "files_present [''rf_model.pkl'', ''tfidf_vectorizer.pkl'']"
  have a: "isl (Inl (NotFound ''rf_model.pkl'') :: load_failure + string classifier)
           \<or> isl (Inr id_tfidf :: load_failure + string tfidf)
           \<or> isl (Inr ?a :: load_failure + string isolation_forest)"
    by simp
  have b: "(Inr ?c :: load_failure + string classifier) = Inr ?c
           \<and> (Inr id_tfidf :: load_failure + string tfidf) = Inr id_tfidf
           \<and> (Inr ?a :: load_failure + string isolation_forest) = Inr ?a"
    by simp
  have c: "\<exists>f \<in> set required_files. \<not> ?missing f"
    by (simp add: required_files_def files_present_def)
  have s: "fst (startup_event ?missing) = Inl (FileNotFoundError [''anomaly_model.pkl''])"
    by (simp add: startup_event_def required_files_def files_present_def Let_def)
  have never: "vec_transform id_tfidf ''heap overflow'' \<noteq> Inl e"
    "clf_predict ?c X \<noteq> Inl e" "clf_predict_proba ?c X \<noteq> Inl e"
    "iso_predict ?a X \<noteq> Inl e" "iso_decision_function ?a X \<noteq> Inl e" for e X
    by (simp_all add: fixture_defs)
  from unloaded_artifacts_raise_per_call
         [of "Inl (NotFound ''rf_model.pkl'')" "Inr id_tfidf" "Inr ?a" "''heap overflow''"
             ?c id_tfidf ?a ?missing]
       a c
  have 1: "predict_risk (fst (load_models (Inl (NotFound ''rf_model.pkl'')) (Inr id_tfidf)
                        (Inr ?a))) ''heap overflow''
     = Inl (ValueError ''Models not loaded. Cannot perform prediction.'')"
    and 2: "detect_anomaly (fst (load_models (Inl (NotFound ''rf_model.pkl'')) (Inr id_tfidf)
                        (Inr ?a))) ''heap overflow''
     = Inl (ValueError ''Anomaly model or vectorizer not loaded.'')"
    by blast+
  from unloaded_artifacts_raise_per_call
         [of "Inr ?c" "Inr id_tfidf" "Inr ?a" "''heap overflow''" ?c id_tfidf ?a ?missing]
       b
  have p: "\<forall>e. predict_risk (fst (load_models (Inr ?c) (Inr id_tfidf) (Inr ?a)))
                 ''heap overflow'' = Inl e \<longrightarrow>
              vec_transform id_tfidf ''heap overflow'' = Inl e
              \<or> (\<exists>X. vec_transform id_tfidf ''heap overflow'' = Inr X
                     \<and> (clf_predict ?c X = Inl e \<or> clf_predict_proba ?c X = Inl e))
              \<or> e = IndexError"
    and q: "\<forall>e. detect_anomaly (fst (load_models (Inr ?c) (Inr id_tfidf) (Inr ?a)))
                 ''heap overflow'' = Inl e \<longrightarrow>
              vec_transform id_tfidf ''heap overflow'' = Inl e
              \<or> (\<exists>X. vec_transform id_tfidf ''heap overflow'' = Inr X
                     \<and> (iso_predict ?a X = Inl e \<or> iso_decision_function ?a X = Inl e))"
    by blast+
  from p never have 3: "predict_risk (fst (load_models (Inr ?c) (Inr id_tfidf) (Inr ?a)))
       ''heap overflow'' \<noteq> Inl (ValueError ''Models not loaded. Cannot perform prediction.'')"
    by auto
  from q never have 4: "detect_anomaly (fst (load_models (Inr ?c) (Inr id_tfidf) (Inr ?a)))
       ''heap overflow'' \<noteq> Inl (ValueError ''Anomaly model or vectorizer not loaded.'')"
    by auto
  have 5: "predict_risk (fst (load_models (Inr ?c) (Inr (failing_tfidf ''bad'')) (Inr ?a))) ''bad''
     = Inl (ValueError ''cannot vectorize'')"
    by (simp add: load_models_def predict_risk_def fixture_defs)
  from 1 2 3 4 5 s show ?thesis by simp
qed

text \<open>
  C8. The claim as stated fails: an item whose first description tagged \<^verbatim>\<open>en\<close> has an
  empty value is dropped with the warning, although a second entry tagged \<^verbatim>\<open>en\<close> carries
  an English description.
\<close>

theorem empty_first_english_dropped_counterexample:
  "fetch_cves_from_nvd None 1700000000
     (const_feed (ok_response
        [feed_item_of (Some ''CVE-2024-0001'') [(''en'', ''''), (''en'', ''heap overflow'')]]))
     7 20 (Some ''key'')
   = (Inr [], [InfoFetching 1699395200 1700000000,
               WarnNoEnglishDescription ''CVE-2024-0001'', InfoFetched 0])"
  by (simp add: fetch_defs fixture_defs)

text \<open>
  C8, amended. When the feed answers with a parsed document and no status error, and no
  entry tagged \<^verbatim>\<open>en\<close> lacks its value, \<open>fetch_cves_from_nvd\<close> returns, in feed order,
  exactly the records of the items whose first description tagged \<^verbatim>\<open>en\<close> has a non-empty
  value (\<open>kept_record\<close>). Every other item is left out and logged with a warning, no error
  is logged, and \<open>process_new_cves\<close> scores the returned records only.
\<close>

theorem fetch_keeps_nonempty_first_english:
  assumes "nvd_request env now days_back max_results api_key = Inr req"
    and "http_get req = Response status (Inr doc)"
    and "\<not> (400 \<le> status \<and> status < 600)"
    and "\<forall>item \<in> set (cve_items doc). \<not> isl (item_desc_text item)"
  shows "\<exists>cves lg.
           fetch_cves_from_nvd env now http_get days_back max_results api_key = (Inr cves, lg)
           \<and> cves = List.map_filter kept_record (cve_items doc)
           \<and> (\<forall>item \<in> set (cve_items doc).
                 kept_record item = None \<longrightarrow> WarnNoEnglishDescription (item_id item) \<in> set lg)
           \<and> (\<forall>e. ErrorFetchingFromNvd e \<notin> set lg)
           \<and> fst (process_new_cves g env now http_get days_back max_results api_key)
               = Inr (fst (score_loop g (length cves) 1 cves))"
proof -
  let ?cves = "List.map_filter kept_record (cve_items doc)"
  let ?lg = "snd (resolve_api_key env api_key)
              @ [InfoFetching (pubStartDate req) (pubEndDate req)]
              @ map (\<lambda>i. WarnNoEnglishDescription (item_id i))
                  (filter (\<lambda>i. kept_record i = None) (cve_items doc))
              @ [InfoFetched (length ?cves)]"
  have f: "fetch_cves_from_nvd env now http_get days_back max_results api_key = (Inr ?cves, ?lg)"
    using assms by (rule fetch_ok)
  have w: "\<forall>item \<in> set (cve_items doc).
             kept_record item = None \<longrightarrow> WarnNoEnglishDescription (item_id item) \<in> set ?lg"
    by auto
  have e: "\<forall>e. ErrorFetchingFromNvd e \<notin> set ?lg"
    using resolve_api_key_log [of env api_key] by auto
  have p: "fst (process_new_cves g env now http_get days_back max_results api_key)
               = Inr (fst (score_loop g (length ?cves) 1 ?cves))"
    using f by (simp add: process_result)
  from f w e p show ?thesis by blast
qed

theorem fetch_keeps_nonempty_first_english_witness:
  "fst (fetch_cves_from_nvd None 1700000000
     (const_feed (ok_response
        [feed_item_of (Some ''CVE-2024-0001'') [(''en'', ''heap overflow'')],
         feed_item_of (Some ''CVE-2024-0002'') [(''fr'', ''bonjour'')],
         feed_item_of (Some ''CVE-2024-0003'') [(''es'', ''hola''), (''en'', ''sql injection'')]]))
     7 20 (Some ''key''))
   = Inr [\<lparr>cve_id = ''CVE-2024-0001'', description = ''heap overflow''\<rparr>,
          \<lparr>cve_id = ''CVE-2024-0003'', description = ''sql injection''\<rparr>]
   \<and> WarnNoEnglishDescription ''CVE-2024-0002'' \<in> set (snd (fetch_cves_from_nvd None 1700000000
     (const_feed (ok_response
        [feed_item_of (Some ''CVE-2024-0001'') [(''en'', ''heap overflow'')],
         feed_item_of (Some ''CVE-2024-0002'') [(''fr'', ''bonjour'')],
         feed_item_of (Some ''CVE-2024-0003'') [(''es'', ''hola''), (''en'', ''sql injection'')]]))
     7 20 (Some ''key'')))"
proof -
  let ?i1 = "feed_item_of (Some ''CVE-2024-0001'') [(''en'', ''heap overflow'')]"
  let ?i2 = "feed_item_of (Some ''CVE-2024-0002'') [(''fr'', ''bonjour'')]"
  let ?i3 = "feed_item_of (Some ''CVE-2024-0003'') [(''es'', ''hola''), (''en'', ''sql injection'')]"
  let ?doc = "\<lparr>vulnerabilities = Some [?i1, ?i2, ?i3]\<rparr>"
  let ?feed = "const_feed (ok_response [?i1, ?i2, ?i3])"
  let ?req = "\<lparr>pubStartDate = 1699395200, pubEndDate = 1700000000, resultsPerPage = 20,
               apiKey = Some ''key''\<rparr>"
  have r: "nvd_request None 1700000000 7 20 (Some ''key'') = Inr ?req"
    by (simp add: fetch_defs)
  have h: "?feed ?req = Response 200 (Inr ?doc)"
    by (simp add: const_feed_def ok_response_def)
  have s: "\<not> (400 \<le> (200::nat) \<and> (200::nat) < 600)"
    by simp
  have items: "cve_items ?doc = [?i1, ?i2, ?i3]"
    by (simp add: cve_items_def)
  have d: "item_desc_text ?i1 = Inr (Some ''heap overflow'')"
    "item_desc_text ?i2 = Inr None"
    "item_desc_text ?i3 = Inr (Some ''sql injection'')"
    by (simp_all add: fetch_defs fixture_defs)
  have n: "\<forall>item \<in> set (cve_items ?doc). \<not> isl (item_desc_text item)"
    unfolding items using d by simp
  have k: "kept_record ?i1 = Some \<lparr>cve_id = ''CVE-2024-0001'', description = ''heap overflow''\<rparr>"
    "kept_record ?i2 = None"
    "kept_record ?i3 = Some \<lparr>cve_id = ''CVE-2024-0003'', description = ''sql injection''\<rparr>"
    "item_id ?i2 = ''CVE-2024-0002''"
    unfolding kept_record_def d by (simp_all add: fetch_defs fixture_defs)
  from fetch_keeps_nonempty_first_english
         [where http_get = ?feed and g = "const_models 0.875 1 0.125", OF r h s n]
  obtain cves lg where
    f: "fetch_cves_from_nvd None 1700000000 ?feed 7 20 (Some ''key'') = (Inr cves, lg)"
    and c: "cves = List.map_filter kept_record (cve_items ?doc)"
    and w: "\<forall>item \<in> set (cve_items ?doc).
              kept_record item = None \<longrightarrow> WarnNoEnglishDescription (item_id item) \<in> set lg"
    by blast
  from c have "cves = [\<lparr>cve_id = ''CVE-2024-0001'', description = ''heap overflow''\<rparr>,
          \<lparr>cve_id = ''CVE-2024-0003'', description = ''sql injection''\<rparr>]"
    unfolding items by (simp add: k)
  moreover from w have "WarnNoEnglishDescription ''CVE-2024-0002'' \<in> set lg"
    unfolding items using k(2,4) by simp
  ultimately show ?thesis
    using f by simp
qed

text \<open>
  C9. The result of the batch pipeline is determined by the loaded artifacts and the
  response of the feed: two runs with the same artifacts that receive the same response
  return the same outcome (the same identifiers, tiers, confidences and anomaly flags in the
  same order, or the same exception), whatever the clock, the parameters and the API key of
  each run are.
\<close>

theorem batch_result_determined_by_feed_response:
  assumes "nvd_request env1 now1 days1 max1 key1 = Inr req1"
    and "nvd_request env2 now2 days2 max2 key2 = Inr req2"
    and "http1 req1 = http2 req2"
  shows "fst (process_new_cves g env1 now1 http1 days1 max1 key1)
         = fst (process_new_cves g env2 now2 http2 days2 max2 key2)"
  using assms by (simp add: process_result fetch_result)

theorem batch_result_determined_by_feed_response_witness:
  "fst (process_new_cves (const_models 0.5 (- 1) (- 0.25)) None 1700000000
        (const_feed (ok_response
           [feed_item_of (Some ''CVE-2024-0001'') [(''en'', ''heap overflow'')],
            feed_item_of (Some ''CVE-2024-0002'') [(''fr'', ''bonjour'')]]))
        7 20 None)
   = Inr [\<lparr>out_cve_id = ''CVE-2024-0001'', out_risk = ''MEDIUM'', out_confidence = 0.5,
            out_anomalous = True\<rparr>]
   \<and> fst (process_new_cves (const_models 0.5 (- 1) (- 0.25)) (Some ''key'') 1700086400
        (const_feed (ok_response
           [feed_item_of (Some ''CVE-2024-0001'') [(''en'', ''heap overflow'')],
            feed_item_of (Some ''CVE-2024-0002'') [(''fr'', ''bonjour'')]]))
        3 10 None)
   = Inr [\<lparr>out_cve_id = ''CVE-2024-0001'', out_risk = ''MEDIUM'', out_confidence = 0.5,
            out_anomalous = True\<rparr>]"
proof -
  let ?feed = "const_feed (ok_response
           [feed_item_of (Some ''CVE-2024-0001'') [(''en'', ''heap overflow'')],
            feed_item_of (Some ''CVE-2024-0002'') [(''fr'', ''bonjour'')]])"
  let ?req1 = "\<lparr>pubStartDate = 1699395200, pubEndDate = 1700000000, resultsPerPage = 20,
               apiKey = None\<rparr>"
  let ?req2 = "\<lparr>pubStartDate = 1699827200, pubEndDate = 1700086400, resultsPerPage = 10,
               apiKey = Some ''key''\<rparr>"
  have r1: "nvd_request None 1700000000 7 20 None = Inr ?req1"
    by (simp add: fetch_defs)
  have r2: "nvd_request (Some ''key'') 1700086400 3 10 None = Inr ?req2"
    by (simp add: fetch_defs)
  have same: "?feed ?req1 = ?feed ?req2"
    by (simp add: const_feed_def)
  have first: "fst (process_new_cves (const_models 0.5 (- 1) (- 0.25)) None 1700000000 ?feed 7 20 None)
     = Inr [\<lparr>out_cve_id = ''CVE-2024-0001'', out_risk = ''MEDIUM'', out_confidence = 0.5,
              out_anomalous = True\<rparr>]"
    by (simp add: process_new_cves_def fetch_defs score_defs fixture_defs)
  from batch_result_determined_by_feed_response
         [where ?http1.0 = ?feed and ?http2.0 = ?feed and g = "const_models 0.5 (- 1) (- 0.25)",
          OF r1 r2 same] first
  show ?thesis by simp
qed

text \<open>
  C10. The claim as stated fails: an item without \<^verbatim>\<open>id\<close> whose first description tagged
  \<^verbatim>\<open>en\<close> has an empty value yields no record at all, although a second entry tagged
  \<^verbatim>\<open>en\<close> carries an English description.
\<close>

theorem missing_id_empty_first_english_counterexample:
  "fetch_cves_from_nvd None 1700000000
     (const_feed (ok_response
        [feed_item_of None [(''en'', ''''), (''en'', ''sql injection'')]]))
     7 20 (Some ''key'')
   = (Inr [], [InfoFetching 1699395200 1700000000,
               WarnNoEnglishDescription ''Unknown'', InfoFetched 0])"
  by (simp add: fetch_defs fixture_defs)

text \<open>
  C10, amended. When the fetch succeeds as in C8, every item without \<^verbatim>\<open>id\<close> whose first
  description tagged \<^verbatim>\<open>en\<close> has a non-empty value yields a record with the identifier
  \<^verbatim>\<open>Unknown\<close>; when two such items occur in one fetch, the identifiers of the output are
  not distinct.
\<close>

theorem missing_id_becomes_Unknown:
  assumes "nvd_request env now days_back max_results api_key = Inr req"
    and "http_get req = Response status (Inr doc)"
    and "\<not> (400 \<le> status \<and> status < 600)"
    and "\<forall>item \<in> set (cve_items doc). \<not> isl (item_desc_text item)"
  shows "\<exists>cves lg.
           fetch_cves_from_nvd env now http_get days_back max_results api_key = (Inr cves, lg)
           \<and> (\<forall>i < length (cve_items doc). \<forall>t.
                 cve_obj_id (item_cve_obj (cve_items doc ! i)) = None
                 \<and> item_desc_text (cve_items doc ! i) = Inr (Some t) \<and> t \<noteq> []
                 \<longrightarrow> \<lparr>cve_id = ''Unknown'', description = t\<rparr> \<in> set cves)
           \<and> ((\<exists>i j t u. i < j \<and> j < length (cve_items doc)
                  \<and> cve_obj_id (item_cve_obj (cve_items doc ! i)) = None
                  \<and> item_desc_text (cve_items doc ! i) = Inr (Some t) \<and> t \<noteq> []
                  \<and> cve_obj_id (item_cve_obj (cve_items doc ! j)) = None
                  \<and> item_desc_text (cve_items doc ! j) = Inr (Some u) \<and> u \<noteq> [])
                \<longrightarrow> \<not> distinct (map cve_id cves))"
proof -
  let ?items = "cve_items doc"
  let ?cves = "List.map_filter kept_record ?items"
  have k: "kept_record item = Some \<lparr>cve_id = ''Unknown'', description = t\<rparr>"
    if "cve_obj_id (item_cve_obj item) = None" "item_desc_text item = Inr (Some t)" "t \<noteq> []"
    for item t
    using that by (simp add: kept_record_def item_id_def)
  have "\<exists>lg. fetch_cves_from_nvd env now http_get days_back max_results api_key
            = (Inr ?cves, lg)"
    using fetch_ok [where http_get = http_get, OF assms] by simp
  then obtain lg where
    f: "fetch_cves_from_nvd env now http_get days_back max_results api_key = (Inr ?cves, lg)"
    by blast
  have a: "\<forall>i < length ?items. \<forall>t.
                 cve_obj_id (item_cve_obj (?items ! i)) = None
                 \<and> item_desc_text (?items ! i) = Inr (Some t) \<and> t \<noteq> []
                 \<longrightarrow> \<lparr>cve_id = ''Unknown'', description = t\<rparr> \<in> set ?cves"
    using k map_filter_member [of _ ?items kept_record] by blast
  have b: "\<not> distinct (map cve_id ?cves)"
    if "\<exists>i j t u. i < j \<and> j < length ?items
                  \<and> cve_obj_id (item_cve_obj (?items ! i)) = None
                  \<and> item_desc_text (?items ! i) = Inr (Some t) \<and> t \<noteq> []
                  \<and> cve_obj_id (item_cve_obj (?items ! j)) = None
                  \<and> item_desc_text (?items ! j) = Inr (Some u) \<and> u \<noteq> []"
  proof -
    from that obtain i j t u where ij: "i < j" "j < length ?items"
      and i: "cve_obj_id (item_cve_obj (?items ! i)) = None"
        "item_desc_text (?items ! i) = Inr (Some t)" "t \<noteq> []"
      and j: "cve_obj_id (item_cve_obj (?items ! j)) = None"
        "item_desc_text (?items ! j) = Inr (Some u)" "u \<noteq> []"
      by blast
    show ?thesis
      using not_distinct_map_filter
              [where f = kept_record and h = cve_id and xs = ?items, OF ij k [OF i] k [OF j]]
      by simp
  qed
  from f a b show ?thesis by blast
qed

theorem missing_id_becomes_Unknown_witness:
  "\<exists>cves lg.
     fetch_cves_from_nvd None 1700000000
       (const_feed (ok_response
          [feed_item_of None [(''en'', ''heap overflow'')],
           feed_item_of None [(''en'', ''sql injection'')]]))
       7 20 (Some ''key'') = (Inr cves, lg)
     \<and> \<lparr>cve_id = ''Unknown'', description = ''heap overflow''\<rparr> \<in> set cves
     \<and> \<lparr>cve_id = ''Unknown'', description = ''sql injection''\<rparr> \<in> set cves
     \<and> \<not> distinct (map cve_id cves)"
proof -
  let ?i1 = "feed_item_of None [(''en'', ''heap overflow'')]"
  let ?i2 = "feed_item_of None [(''en'', ''sql injection'')]"
  let ?doc = "\<lparr>vulnerabilities = Some [?i1, ?i2]\<rparr>"
  let ?feed = "const_feed (ok_response [?i1, ?i2])"
  let ?req = "\<lparr>pubStartDate = 1699395200, pubEndDate = 1700000000, resultsPerPage = 20,
               apiKey = Some ''key''\<rparr>"
  have r: "nvd_request None 1700000000 7 20 (Some ''key'') = Inr ?req"
    by (simp add: fetch_defs)
  have h: "?feed ?req = Response 200 (Inr ?doc)"
    by (simp add: const_feed_def ok_response_def)
  have s: "\<not> (400 \<le> (200::nat) \<and> (200::nat) < 600)"
    by simp
  have items: "cve_items ?doc = [?i1, ?i2]"
    by (simp add: cve_items_def)
  have d: "item_desc_text ?i1 = Inr (Some ''heap overflow'')"
    "item_desc_text ?i2 = Inr (Some ''sql injection'')"
    "cve_obj_id (item_cve_obj ?i1) = None" "cve_obj_id (item_cve_obj ?i2) = None"
    by (simp_all add: fetch_defs fixture_defs)
  have n: "\<forall>item \<in> set (cve_items ?doc). \<not> isl (item_desc_text item)"
    unfolding items using d by simp
  have two: "\<exists>i j t u. i < j \<and> j < length (cve_items ?doc)
                  \<and> cve_obj_id (item_cve_obj (cve_items ?doc ! i)) = None
                  \<and> item_desc_text (cve_items ?doc ! i) = Inr (Some t) \<and> t \<noteq> []
                  \<and> cve_obj_id (item_cve_obj (cve_items ?doc ! j)) = None
                  \<and> item_desc_text (cve_items ?doc ! j) = Inr (Some u) \<and> u \<noteq> []"
    unfolding items
    by (rule exI [of _ 0], rule exI [of _ 1], rule exI [of _ "''heap overflow''"],
        rule exI [of _ "''sql injection''"]) (simp add: d)
  from missing_id_becomes_Unknown [where http_get = ?feed, OF r h s n]
  obtain cves lg where
    f: "fetch_cves_from_nvd None 1700000000 ?feed 7 20 (Some ''key'') = (Inr cves, lg)"
    and a: "\<forall>i < length (cve_items ?doc). \<forall>t.
                 cve_obj_id (item_cve_obj (cve_items ?doc ! i)) = None
                 \<and> item_desc_text (cve_items ?doc ! i) = Inr (Some t) \<and> t \<noteq> []
                 \<longrightarrow> \<lparr>cve_id = ''Unknown'', description = t\<rparr> \<in> set cves"
    and b: "(\<exists>i j t u. i < j \<and> j < length (cve_items ?doc)
                  \<and> cve_obj_id (item_cve_obj (cve_items ?doc ! i)) = None
                  \<and> item_desc_text (cve_items ?doc ! i) = Inr (Some t) \<and> t \<noteq> []
                  \<and> cve_obj_id (item_cve_obj (cve_items ?doc ! j)) = None
                  \<and> item_desc_text (cve_items ?doc ! j) = Inr (Some u) \<and> u \<noteq> [])
                \<longrightarrow> \<not> distinct (map cve_id cves)"
    by blast
  from a [unfolded items, rule_format, of 0 "''heap overflow''"] d
  have m1: "\<lparr>cve_id = ''Unknown'', description = ''heap overflow''\<rparr> \<in> set cves"
    by simp
  from a [unfolded items, rule_format, of 1 "''sql injection''"] d
  have m2: "\<lparr>cve_id = ''Unknown'', description = ''sql injection''\<rparr> \<in> set cves"
    by simp
  from b two have "\<not> distinct (map cve_id cves)"
    by blast
  with f m1 m2 show ?thesis by blast
qed

end
